theory Spec2Isabelle
  imports Complex_Main "HOL-Library.Word" "HOL-Library.AList" "HOL-Library.Signed_Division"
    "HOL-Library.Sublist"
begin

section \<open>Strings, byte arrays and JSON values as the Qt code sees them\<close>

text \<open>
  A \<open>QString\<close> is a sequence of UTF-16 code units, and \<open>indexOf\<close>, \<open>right\<close> and
  \<open>+\<close> count and join code units. Every character of the source's literals lies in the
  basic plane, so one source character is one code unit. A \<open>QByteArray\<close> is a sequence
  of bytes.
\<close>

type_synonym QChar = "16 word"
type_synonym QString = "QChar list"
type_synonym QByteArray = string

text \<open>The \<open>QString\<close> built from an ASCII literal of the source.\<close>

definition lit :: "string \<Rightarrow> QString" where
  "lit s = map of_char s"

text \<open>The suffixes tried by the resolver: U+5E02, U+53BF and U+533A.\<close>

definition str_shi :: QString where
  "str_shi = [0x5E02]"

definition str_xian :: QString where
  "str_xian = [0x53BF]"

definition str_qu :: QString where
  "str_qu = [0x533A]"

text \<open>
  \<open>QJsonValue\<close>. A number is a double that no function of this program reads, so its
  payload is kept as a real number. An object is held as a key-value list whose
  first entry for a key is the one \<open>value(key)\<close> returns.
\<close>

datatype QJsonValue =
    Null
  | Bool bool
  | Double real
  | String QString
  | Array "QJsonValue list"
  | Object "(QString \<times> QJsonValue) list"
  | Undefined

text \<open>
  \<open>QJsonDocument\<close>: the null document (what \<open>fromJson\<close> returns for bytes that are not
  valid JSON), or a document holding an array or an object.
\<close>

datatype QJsonDocument =
    DocNull
  | DocArray "QJsonValue list"
  | DocObject "(QString \<times> QJsonValue) list"

fun isObject :: "QJsonValue \<Rightarrow> bool" where
  "isObject (Object kvs) = True"
| "isObject v = False"

fun isArray :: "QJsonValue \<Rightarrow> bool" where
  "isArray (Array vs) = True"
| "isArray v = False"

text \<open>\<open>toString()\<close>, \<open>toObject()\<close>, \<open>toArray()\<close>: the default (empty) value for any
  other kind of value.\<close>

fun toString :: "QJsonValue \<Rightarrow> QString" where
  "toString (String s) = s"
| "toString v = []"

fun toObject :: "QJsonValue \<Rightarrow> (QString \<times> QJsonValue) list" where
  "toObject (Object kvs) = kvs"
| "toObject v = []"

fun toArray :: "QJsonValue \<Rightarrow> QJsonValue list" where
  "toArray (Array vs) = vs"
| "toArray v = []"

text \<open>\<open>QJsonObject::value(key)\<close> and \<open>operator[](key)\<close> for reading: \<open>Undefined\<close>
  when the key is missing.\<close>

definition obj_value :: "(QString \<times> QJsonValue) list \<Rightarrow> QString \<Rightarrow> QJsonValue" where
  "obj_value kvs k = (case map_of kvs k of Some v \<Rightarrow> v | None \<Rightarrow> Undefined)"

definition obj_contains :: "(QString \<times> QJsonValue) list \<Rightarrow> QString \<Rightarrow> bool" where
  "obj_contains kvs k = (map_of kvs k \<noteq> None)"

text \<open>\<open>QJsonValue::operator[](key)\<close>: the member of an object, \<open>Undefined\<close> for a value
  that is no object.\<close>

definition val_at :: "QJsonValue \<Rightarrow> QString \<Rightarrow> QJsonValue" where
  "val_at v k = obj_value (toObject v) k"

text \<open>Reading element \<open>i\<close> of a \<open>QJsonArray\<close>: \<open>Undefined\<close> out of range.\<close>

definition arr_at :: "QJsonValue list \<Rightarrow> nat \<Rightarrow> QJsonValue" where
  "arr_at vs i = (if i < length vs then vs ! i else Undefined)"

section \<open>The city code resolver (citycodeutils.cpp)\<close>

text \<open>
  \<open>QMap<QString,QString>\<close> as a key-value list with distinct keys: \<open>find\<close> is
  \<open>map_of\<close>, \<open>insert\<close> replaces the value of a key that is present, \<open>isEmpty\<close> is
  being the empty list.
\<close>

type_synonym QMap = "(QString \<times> QString) list"

definition QMap_insert :: "QString \<Rightarrow> QString \<Rightarrow> QMap \<Rightarrow> QMap" where
  "QMap_insert k v m = AList.update k v m"

text \<open>
  The resolver object. \<open>CityMap\<close> is its only member in the source; \<open>initCalls\<close> counts
  the executions of \<open>InitCityMap\<close> (each one opens and reads the resource file), so that
  the number of loads can be stated.
\<close>

record CityCodeUtils =
  CityMap :: QMap
  initCalls :: nat

text \<open>The constructor: an empty table, nothing loaded.\<close>

definition CityCodeUtils_new :: CityCodeUtils where
  "CityCodeUtils_new = \<lparr>CityMap = [], initCalls = 0\<rparr>"

text \<open>The loop of \<open>InitCityMap\<close> over the array of the dataset.\<close>

fun insert_cities :: "QJsonValue list \<Rightarrow> QMap \<Rightarrow> QMap" where
  "insert_cities [] m = m"
| "insert_cities (val # vals) m =
     (if isObject val
      then insert_cities vals
             (QMap_insert (toString (val_at val (lit ''city_name'')))
                          (toString (val_at val (lit ''city_code''))) m)
      else insert_cities vals m)"

text \<open>
  \<open>InitCityMap\<close>. The parser \<open>QJsonDocument::fromJson\<close> and the bytes read from the
  resource \<open>:/citycode.json\<close> (empty when the file cannot be opened) are parameters.
\<close>

definition InitCityMap ::
  "(QByteArray \<Rightarrow> QJsonDocument) \<Rightarrow> QByteArray \<Rightarrow> CityCodeUtils \<Rightarrow> CityCodeUtils" where
  "InitCityMap fromJson rawData u =
     (let u = u\<lparr>initCalls := Suc (initCalls u)\<rparr> in
      case fromJson rawData of
        DocArray citys \<Rightarrow> u\<lparr>CityMap := insert_cities citys (CityMap u)\<rparr>
      | _ \<Rightarrow> u)"

text \<open>\<open>getCityCodeFromName\<close>: the code returned and the resolver after the call.\<close>

definition getCityCodeFromName ::
  "(QByteArray \<Rightarrow> QJsonDocument) \<Rightarrow> QByteArray \<Rightarrow> QString \<Rightarrow> CityCodeUtils
     \<Rightarrow> QString \<times> CityCodeUtils" where
  "getCityCodeFromName fromJson rawData cityName u0 =
     (let u = (if CityMap u0 = [] then InitCityMap fromJson rawData u0 else u0);
          it = map_of (CityMap u) cityName
      in if it = None
         then (let it = map_of (CityMap u) (cityName @ str_shi);
                   it = (if it = None then map_of (CityMap u) (cityName @ str_xian) else it);
                   it = (if it = None then map_of (CityMap u) (cityName @ str_qu) else it)
               in case it of None \<Rightarrow> ([], u) | Some v \<Rightarrow> (v, u))
         else (case it of None \<Rightarrow> ([], u) | Some v \<Rightarrow> (v, u)))"

text \<open>
  The resolution rule in the words of the specification, on a given table: the exact
  name first, then the name with U+5E02, then with U+53BF, then with U+533A appended,
  and the empty string when all four keys are absent.
\<close>

definition resolve_spec :: "QMap \<Rightarrow> QString \<Rightarrow> QString" where
  "resolve_spec t n =
     (case map_of t n of Some c \<Rightarrow> c
      | None \<Rightarrow>
     (case map_of t (n @ str_shi) of Some c \<Rightarrow> c
      | None \<Rightarrow>
     (case map_of t (n @ str_xian) of Some c \<Rightarrow> c
      | None \<Rightarrow>
     (case map_of t (n @ str_qu) of Some c \<Rightarrow> c
      | None \<Rightarrow> []))))"

text \<open>The table a call works on: the stored one, or the freshly loaded one when the
  stored one is empty.\<close>

definition table_in_use ::
  "(QByteArray \<Rightarrow> QJsonDocument) \<Rightarrow> QByteArray \<Rightarrow> CityCodeUtils \<Rightarrow> QMap" where
  "table_in_use fromJson rawData u =
     (if CityMap u = [] then CityMap (InitCityMap fromJson rawData u) else CityMap u)"

section \<open>The forecast records and the window (widget.h, widget.cpp)\<close>

text \<open>
  The members of class \<open>Day\<close> that the window reads and writes (the class is declared
  in day.h; every member used is a \<open>QString\<close>).
\<close>

record Day =
  mCity :: QString
  mDate :: QString
  mWeek :: QString
  mWeathType :: QString
  mTemp :: QString
  mTempLow :: QString
  mTempHigh :: QString
  mFx :: QString
  mFl :: QString
  mAirq :: QString
  mTips :: QString
  mHu :: QString
  mPm25 :: QString

text \<open>\<open>Day days[7]\<close>: the fixed number of slots of the forecast array.\<close>

definition days_size :: nat where
  "days_size = 7"

text \<open>
  What the window shows. A label is held by its text, an icon label by the resource path
  of its pixmap, the air-quality labels also by their style sheet, position and width.
  The seven label lists of the constructor hold six labels each; they are kept as
  parallel lists, as in the source. \<open>updates\<close> counts the calls of \<open>update()\<close>.
\<close>

record Ui =
  lineEditCity :: QString
  labelCurrentDate :: QString
  labelCity :: QString
  labelTmp :: QString
  labelTempRange :: QString
  labelWeatherType :: QString
  labelWeatherIcon :: QString
  labelGanbao :: QString
  labelFXType :: QString
  labelFXData :: QString
  labelPM25Data :: QString
  labelShiDuData :: QString
  labelAirQualityData :: QString
  mWeekList :: "QString list"
  mDateList :: "QString list"
  mIconList :: "QString list"
  mWeaTypeList :: "QString list"
  mAirqList :: "QString list"
  mAirqList_styleSheet :: "QString list"
  mFxList :: "QString list"
  mFlList :: "QString list"
  updates :: nat

text \<open>C++ \<open>int\<close>: 32 bits, read as two's complement; \<open>+\<close>, \<open>-\<close> and \<open>*\<close> wrap around.\<close>

type_synonym int32 = "32 word"

text \<open>\<open>a / b\<close> on \<open>int\<close>: the quotient truncated towards zero.\<close>

definition sdiv32 :: "int32 \<Rightarrow> int32 \<Rightarrow> int32" where
  "sdiv32 a b = word_of_int (sint a sdiv sint b)"

text \<open>
  The geometry that the layout of the form fixes and the chart painters read: \<open>x()\<close> and
  \<open>width()\<close> of the six air-quality labels of the day strip, and the heights of the two
  chart widgets.
\<close>

record Geometry =
  mAirqList_x :: "int32 list"
  mAirqList_width :: "int32 list"
  widget0404_height :: int32
  widget0405_height :: int32

text \<open>
  The window. \<open>requests\<close> lists the URLs handed to \<open>manager->get\<close>, oldest first;
  \<open>messages\<close> lists title and text of every message box executed.
\<close>

record Widget =
  days :: "Day list"
  ui :: Ui
  strUrl :: QString
  cityCodeUtils :: CityCodeUtils
  mTypeMap :: QMap
  requests :: "QString list"
  messages :: "(QString \<times> QString) list"

text \<open>What stops the program: an index past the end of \<open>days\<close>, and \<open>QList::at\<close> out
  of range.\<close>

datatype error =
    DaysIndexOutOfBounds nat
  | ListIndexOutOfRange nat

subsection \<open>String literals of widget.cpp\<close>

definition str_zhuan :: QString where
  "str_zhuan = [0x8F6C]"

definition str_celsius :: QString where
  "str_celsius = [0x2103]"

definition str_degree :: QString where
  "str_degree = [0x00B0]"

definition str_today :: QString where
  "str_today = [0x4ECA, 0x5929]"

definition str_tomorrow :: QString where
  "str_tomorrow = [0x660E, 0x5929]"

definition str_day_after :: QString where
  "str_day_after = [0x540E, 0x5929]"

definition str_excellent :: QString where
  "str_excellent = [0x4F18]"

definition str_good :: QString where
  "str_good = [0x826F]"

definition str_light :: QString where
  "str_light = [0x8F7B, 0x5EA6]"

definition str_moderate :: QString where
  "str_moderate = [0x4E2D, 0x5EA6]"

definition str_severe :: QString where
  "str_severe = [0x91CD, 0x5EA6]"

definition str_error_title :: QString where
  "str_error_title = [0x9519, 0x8BEF]"

definition str_network_failed :: QString where
  "str_network_failed = [0x7F51, 0x7EDC, 0x8BF7, 0x6C42, 0x5931, 0x8D25]"

definition str_wrong_city :: QString where
  "str_wrong_city = [0x8BF7, 0x8F93, 0x5165, 0x6B63, 0x786E, 0x7684, 0x57CE, 0x5E02, 0x540D, 0x79F0]"

definition base_url :: QString where
  "base_url = lit ''http://gfeljm.tianqiapi.com/api?unescape=1&version=v9&appid=29132936&appsecret=JV3FYmaV''"

text \<open>The table from condition text to icon path that the constructor fills.\<close>

definition mTypeMap_init :: QMap where
  "mTypeMap_init = [
      ([0x66B4, 0x96EA], lit '':/type/BaoXue.png''),
      ([0x66B4, 0x96E8], lit '':/type/BaoYu.png''),
      ([0x66B4, 0x96E8, 0x5230, 0x5927, 0x66B4, 0x96E8], lit '':/type/BaoYuDaoDaBaoYu.png''),
      ([0x5927, 0x66B4, 0x96E8], lit '':/type/DaBaoYu.png''),
      ([0x5927, 0x66B4, 0x96E8, 0x5230, 0x7279, 0x5927, 0x66B4, 0x96E8], lit '':/type/DaBaoYuDaoTeDaBaoYu.png''),
      ([0x5927, 0x5230, 0x66B4, 0x96EA], lit '':/type/DaDaoBaoXue.png''),
      ([0x5927, 0x96EA], lit '':/type/DaXue.png''),
      ([0x5927, 0x96E8], lit '':/type/DaYu.png''),
      ([0x51BB, 0x96E8], lit '':/type/DongYu.png''),
      ([0x591A, 0x4E91], lit '':/type/DuoYun.png''),
      ([0x6D6E, 0x6C89], lit '':/type/FuChen.png''),
      ([0x96F7, 0x9635, 0x96E8], lit '':/type/LeiZhenYu.png''),
      ([0x96F7, 0x9635, 0x96E8, 0x4F34, 0x6709, 0x51B0, 0x96F9], lit '':/type/LeiZhenYuBanYouBingBao.png''),
      ([0x973E], lit '':/type/Mai.png''),
      ([0x5F3A, 0x6C99, 0x5C18, 0x66B4], lit '':/type/QiangShaChenBao.png''),
      ([0x6674], lit '':/type/Qing.png''),
      ([0x6C99, 0x5C18, 0x66B4], lit '':/type/ShaChenBao.png''),
      ([0x7279, 0x5927, 0x66B4, 0x96E8], lit '':/type/TeDaBaoYu.png''),
      (lit ''undefined'', lit '':/type/undefined.png''),
      ([0x96FE], lit '':/type/Wu.png''),
      ([0x5C0F, 0x5230, 0x4E2D, 0x96EA], lit '':/type/XiaoDaoZhongXue.png''),
      ([0x5C0F, 0x5230, 0x4E2D, 0x96E8], lit '':/type/XiaoDaoZhongYu.png''),
      ([0x5C0F, 0x96EA], lit '':/type/XiaoXue.png''),
      ([0x5C0F, 0x96E8], lit '':/type/XiaoYu.png''),
      ([0x96EA], lit '':/type/Xue.png''),
      ([0x626C, 0x6C99], lit '':/type/YangSha.png''),
      ([0x9634], lit '':/type/Yin.png''),
      ([0x96E8], lit '':/type/Yu.png''),
      ([0x96E8, 0x5939, 0x96EA], lit '':/type/YuJiaXue.png''),
      ([0x9635, 0x96EA], lit '':/type/ZhenXue.png''),
      ([0x9635, 0x96E8], lit '':/type/ZhenYu.png''),
      ([0x4E2D, 0x5230, 0x5927, 0x96EA], lit '':/type/ZhongDaoDaXue.png''),
      ([0x4E2D, 0x5230, 0x5927, 0x96E8], lit '':/type/ZhongDaoDaYu.png''),
      ([0x4E2D, 0x96EA], lit '':/type/ZhongXue.png''),
      ([0x4E2D, 0x96E8], lit '':/type/ZhongYu.png'')]"

text \<open>
  \<open>QMap::operator[]\<close> on a map that is not const: the value of the key, and for a
  missing key an empty string, which is also inserted.
\<close>

definition QMap_index :: "QMap \<Rightarrow> QString \<Rightarrow> QString \<times> QMap" where
  "QMap_index m k =
     (case map_of m k of Some v \<Rightarrow> (v, m) | None \<Rightarrow> ([], QMap_insert k [] m))"

text \<open>\<open>QString::indexOf(str)\<close>: the first position where \<open>str\<close> starts, or -1.\<close>

fun indexOf_from :: "nat \<Rightarrow> QString \<Rightarrow> QString \<Rightarrow> int" where
  "indexOf_from i [] pat = (if pat = [] then int i else - 1)"
| "indexOf_from i (c # cs) pat =
     (if prefix pat (c # cs) then int i else indexOf_from (Suc i) cs pat)"

definition indexOf :: "QString \<Rightarrow> QString \<Rightarrow> int" where
  "indexOf s pat = indexOf_from 0 s pat"

text \<open>\<open>QString::right(n)\<close>: the last \<open>n\<close> code units, the whole string when \<open>n\<close> is
  negative or not smaller than the size.\<close>

definition right :: "QString \<Rightarrow> int \<Rightarrow> QString" where
  "right s n = (if n < 0 \<or> int (length s) \<le> n then s else drop (length s - nat n) s)"

text \<open>\<open>QString::split\<close> at a separator of one code unit, empty parts kept.\<close>

fun split :: "QString \<Rightarrow> QChar \<Rightarrow> QString list" where
  "split [] sep = [[]]"
| "split (c # cs) sep =
     (if c = sep then [] # split cs sep
      else (case split cs sep of [] \<Rightarrow> [[c]] | p # ps \<Rightarrow> (c # p) # ps))"

subsection \<open>The constructor\<close>

text \<open>
  The state the constructor leaves: the base URL, one request for it already handed to
  the network manager, the icon table filled. The default-constructed \<open>days\<close> and the
  texts the form shows at start come from files outside this translation (day.h, the
  form), so they are parameters.
\<close>

definition Widget_new :: "Day list \<Rightarrow> Ui \<Rightarrow> Widget" where
  "Widget_new days0 ui0 =
     \<lparr>days = days0, ui = ui0, strUrl = base_url, cityCodeUtils = CityCodeUtils_new,
      mTypeMap = mTypeMap_init, requests = [base_url], messages = []\<rparr>"

subsection \<open>updateUI\<close>

text \<open>The statements of \<open>updateUI\<close> before its loop: the panel for today, from \<open>days[0]\<close>.\<close>

definition updateUI_today :: "Widget \<Rightarrow> Widget" where
  "updateUI_today w =
     (let d = days w ! 0;
          (icon, tm) = QMap_index (mTypeMap w) (mWeathType d)
      in w\<lparr>mTypeMap := tm,
            ui := (ui w)\<lparr>
              labelCurrentDate := mDate d @ lit ''  '' @ mWeek d,
              labelCity := mCity d @ str_shi,
              labelTmp := mTemp d @ str_celsius,
              labelTempRange := mTempLow d @ str_celsius @ lit ''~'' @ mTempHigh d @ str_celsius,
              labelWeatherType := mWeathType d,
              labelWeatherIcon := icon,
              labelGanbao := mTips d,
              labelFXType := mFx d,
              labelFXData := mFl d,
              labelPM25Data := mPm25 d,
              labelShiDuData := mHu d,
              labelAirQualityData := mAirq d\<rparr>\<rparr>)"

text \<open>The five tests of the air-quality text, in the order of the source: the style
  sheet of the label after them.\<close>

definition airq_style :: "QString \<Rightarrow> QString \<Rightarrow> QString" where
  "airq_style airQ old =
     (let s = old;
          s = (if airQ = str_excellent
               then lit ''background-color: rgb(150,213,32);border-radius:7px;color:rgb(255,255,255)''
               else s);
          s = (if airQ = str_good
               then lit ''background-color: rgb(255,170,127);border-radius:7px;color:rgb(255,255,255)''
               else s);
          s = (if airQ = str_light
               then lit ''background-color: rgb(255,199,199);border-radius:7px;color:rgb(255,255,255)''
               else s);
          s = (if airQ = str_moderate
               then lit ''background-color: rgb(255,17,17);border-radius:7px;color:rgb(255,255,255)''
               else s);
          s = (if airQ = str_severe
               then lit ''background-color: rgb(153,0,0);border-radius:7px;color:rgb(255,255,255)''
               else s)
      in s)"

text \<open>
  One pass of the loop of \<open>updateUI\<close>, for day \<open>i\<close>. \<open>dayList.at(1)\<close> and
  \<open>dayList.at(2)\<close> stop the program when the date has fewer than two dashes. The local
  \<open>pixmap\<close> is assigned three times and scaled, and never shown: the label gets
  \<open>mTypeMap[days[i].mWeathType]\<close>. Every \<open>mTypeMap[...]\<close> may insert its key.
  (\<open>setMaximumSize\<close> only bounds the size of the label and is left out.)
\<close>

definition updateUI_day :: "nat \<Rightarrow> Widget \<Rightarrow> error + Widget" where
  "updateUI_day i w =
     (let d = days w ! i;
          u = ui w;
          week = (mWeekList u)[i := mWeek d];
          week = week[0 := str_today];
          week = week[1 := str_tomorrow];
          week = week[2 := str_day_after];
          dayList = split (mDate d) (of_char CHR ''-'')
      in if length dayList \<le> 1 then Inl (ListIndexOutOfRange 1)
         else if length dayList \<le> 2 then Inl (ListIndexOutOfRange 2)
         else
          (let date = (mDateList u)[i := dayList ! 1 @ lit ''-'' @ dayList ! 2];
               index = indexOf (mWeathType d) str_zhuan;
               (pixmap, tm) = (if index \<noteq> - 1
                               then QMap_index (mTypeMap w) (right (mWeathType d) index)
                               else QMap_index (mTypeMap w) (mWeathType d));
               (pixmap, tm) = QMap_index tm (mWeathType d);
               (shown, tm) = QMap_index tm (mWeathType d);
               airQ = mAirq d
           in Inr (w\<lparr>mTypeMap := tm,
                      ui := u\<lparr>
                        mWeekList := week,
                        mDateList := date,
                        mIconList := (mIconList u)[i := shown],
                        mWeaTypeList := (mWeaTypeList u)[i := mWeathType d],
                        mAirqList := (mAirqList u)[i := airQ],
                        mAirqList_styleSheet :=
                          (mAirqList_styleSheet u)[i := airq_style airQ (mAirqList_styleSheet u ! i)],
                        mFxList := (mFxList u)[i := mFx d],
                        mFlList := (mFlList u)[i := mFl d]\<rparr>\<rparr>)))"

fun updateUI_loop :: "nat list \<Rightarrow> Widget \<Rightarrow> error + Widget" where
  "updateUI_loop [] w = Inr w"
| "updateUI_loop (i # is) w =
     (case updateUI_day i w of Inl e \<Rightarrow> Inl e | Inr w' \<Rightarrow> updateUI_loop is w')"

definition updateUI :: "Widget \<Rightarrow> error + Widget" where
  "updateUI w =
     (case updateUI_loop [0 ..< 6] (updateUI_today w) of
        Inl e \<Rightarrow> Inl e
      | Inr w' \<Rightarrow> Inr (w'\<lparr>ui := (ui w')\<lparr>updates := Suc (updates (ui w'))\<rparr>\<rparr>))"

subsection \<open>parseWeatherJsonDataNew\<close>

text \<open>
  The eleven assignments of one pass of the parser's loop, from the day object \<open>obj\<close>.
  Reading element 0 of \<open>win\<close> and element 3 of \<open>index\<close> gives \<open>Undefined\<close>, hence an
  empty string, when the array is shorter.
\<close>

definition day_from_json :: "(QString \<times> QJsonValue) list \<Rightarrow> Day \<Rightarrow> Day" where
  "day_from_json obj d =
     d\<lparr>mDate := toString (obj_value obj (lit ''date'')),
       mWeek := toString (obj_value obj (lit ''week'')),
       mWeathType := toString (obj_value obj (lit ''wea'')),
       mTemp := toString (obj_value obj (lit ''tem'')),
       mTempLow := toString (obj_value obj (lit ''tem2'')),
       mTempHigh := toString (obj_value obj (lit ''tem1'')),
       mFx := toString (arr_at (toArray (obj_value obj (lit ''win''))) 0),
       mFl := toString (obj_value obj (lit ''win_speed'')),
       mAirq := toString (obj_value obj (lit ''air_level'')),
       mTips := toString (val_at (arr_at (toArray (obj_value obj (lit ''index''))) 3) (lit ''desc'')),
       mHu := toString (obj_value obj (lit ''humidity''))\<rparr>"

text \<open>
  The loop \<open>for (i = 0; i < weaArray.size(); i++)\<close>, from index \<open>i\<close> on. The source
  compares \<open>i\<close> with the size of the array only; writing \<open>days[i]\<close> with \<open>i\<close> past the
  last slot is the error \<open>DaysIndexOutOfBounds i\<close>.
\<close>

fun fill_days :: "QJsonValue list \<Rightarrow> nat \<Rightarrow> Day list \<Rightarrow> error + Day list" where
  "fill_days [] i ds = Inr ds"
| "fill_days (v # vs) i ds =
     (if i < days_size
      then fill_days vs (Suc i) (ds[i := day_from_json (toObject v) (ds ! i)])
      else Inl (DaysIndexOutOfBounds i))"

definition parseWeatherJsonDataNew ::
  "(QByteArray \<Rightarrow> QJsonDocument) \<Rightarrow> QByteArray \<Rightarrow> Widget \<Rightarrow> error + Widget" where
  "parseWeatherJsonDataNew fromJson rawData w =
     (case fromJson rawData of
        DocObject jsonRoot \<Rightarrow>
          (let ds = (days w)[0 := (days w ! 0)\<lparr>mCity := toString (obj_value jsonRoot (lit ''city''))\<rparr>];
               ds = ds[0 := (ds ! 0)\<lparr>mPm25 :=
                      toString (val_at (obj_value jsonRoot (lit ''aqi'')) (lit ''pm25''))\<rparr>];
               w = w\<lparr>days := ds\<rparr>
           in if obj_contains jsonRoot (lit ''data'') \<and> isArray (obj_value jsonRoot (lit ''data''))
              then (case fill_days (toArray (obj_value jsonRoot (lit ''data''))) 0 (days w) of
                      Inl e \<Rightarrow> Inl e
                    | Inr ds' \<Rightarrow> updateUI (w\<lparr>days := ds'\<rparr>))
              else Inr w)
      | _ \<Rightarrow> Inr w)"

subsection \<open>readHttpReply\<close>

text \<open>What the handler reads from a reply: its error, the status code attribute converted
  to \<open>int\<close>, and the body.\<close>

datatype NetworkError = NoError | TransportError nat

record QNetworkReply =
  reply_error :: NetworkError
  httpStatusCode :: int32
  readAll :: QByteArray

definition readHttpReply ::
  "(QByteArray \<Rightarrow> QJsonDocument) \<Rightarrow> QNetworkReply \<Rightarrow> Widget \<Rightarrow> error + Widget" where
  "readHttpReply fromJson reply w =
     (let resCode = httpStatusCode reply
      in if reply_error reply = NoError \<and> resCode = 200
         then parseWeatherJsonDataNew fromJson (readAll reply) w
         else Inr (w\<lparr>messages := messages w @ [(str_error_title, str_network_failed)]\<rparr>))"

subsection \<open>on_LineEditCity_clicked\<close>

text \<open>
  The slot of the search button. \<open>cityCode != NULL\<close> compares the string with a null
  \<open>char *\<close>, which holds exactly when the string is not empty.
\<close>

definition on_LineEditCity_clicked ::
  "(QByteArray \<Rightarrow> QJsonDocument) \<Rightarrow> QByteArray \<Rightarrow> Widget \<Rightarrow> Widget" where
  "on_LineEditCity_clicked fromJson cityFile w =
     (let cityNameFromUser = lineEditCity (ui w);
          (cityCode, u) = getCityCodeFromName fromJson cityFile cityNameFromUser (cityCodeUtils w);
          w = w\<lparr>cityCodeUtils := u\<rparr>
      in if cityCode \<noteq> []
         then (let w = w\<lparr>strUrl := strUrl w @ lit ''&cityid='' @ cityCode\<rparr>
               in w\<lparr>requests := requests w @ [strUrl w]\<rparr>)
         else w\<lparr>messages := messages w @ [(str_error_title, str_wrong_city)]\<rparr>)"

definition on_lineEditCity_returnPressed ::
  "(QByteArray \<Rightarrow> QJsonDocument) \<Rightarrow> QByteArray \<Rightarrow> Widget \<Rightarrow> Widget" where
  "on_lineEditCity_returnPressed fromJson cityFile w = on_LineEditCity_clicked fromJson cityFile w"

text \<open>A submission: the user types \<open>q\<close> into the line edit and presses the button.\<close>

definition submit ::
  "(QByteArray \<Rightarrow> QJsonDocument) \<Rightarrow> QByteArray \<Rightarrow> QString \<Rightarrow> Widget \<Rightarrow> Widget" where
  "submit fromJson cityFile q w =
     on_LineEditCity_clicked fromJson cityFile (w\<lparr>ui := (ui w)\<lparr>lineEditCity := q\<rparr>\<rparr>)"

fun submits ::
  "(QByteArray \<Rightarrow> QJsonDocument) \<Rightarrow> QByteArray \<Rightarrow> QString list \<Rightarrow> Widget \<Rightarrow> Widget" where
  "submits fromJson cityFile [] w = w"
| "submits fromJson cityFile (q # qs) w = submits fromJson cityFile qs (submit fromJson cityFile q w)"

subsection \<open>The trend charts: drawTempLineHigh and drawTempLineLow\<close>

text \<open>
  \<open>QString::toInt\<close> is a parameter \<open>toInt\<close>. A painter call is a value; a chart is the
  list of the calls made, in order.
\<close>

datatype QPoint = QPoint (px: int32) (py: int32)

datatype GlobalColor = yellow | blue

datatype paint_cmd =
    SetRenderHint_Antialiasing
  | SetPen GlobalColor
  | SetBrush GlobalColor
  | DrawEllipse QPoint int32 int32
  | DrawText int32 int32 QString
  | DrawLine QPoint QPoint

text \<open>The first loop of either painter: \<open>sum += temps[i].toInt()\<close> for \<open>i\<close> from 0 to 5,
  where \<open>temp\<close> selects the member of \<open>Day\<close> that is drawn.\<close>

definition temp_sum :: "(QString \<Rightarrow> int32) \<Rightarrow> (Day \<Rightarrow> QString) \<Rightarrow> Day list \<Rightarrow> int32" where
  "temp_sum toInt temp ds = foldl (\<lambda>sum i. sum + toInt (temp (ds ! i))) 0 [0 ..< 6]"

text \<open>The array \<open>points\<close> that the second loop fills, for a chart widget of the given
  height.\<close>

definition temp_points ::
  "(QString \<Rightarrow> int32) \<Rightarrow> (Day \<Rightarrow> QString) \<Rightarrow> int32 \<Rightarrow> Geometry \<Rightarrow> Day list \<Rightarrow> QPoint list" where
  "temp_points toInt temp height g ds =
     (let middle = sdiv32 height 2;
          ave = sdiv32 (temp_sum toInt temp ds) 6
      in map (\<lambda>i. let offSet = (toInt (temp (ds ! i)) - ave) * 3
                  in QPoint (mAirqList_x g ! i + sdiv32 (mAirqList_width g ! i) 2) (middle - offSet))
             [0 ..< 6])"

text \<open>The painter calls of the second and third loops: a circle and a label at every
  point, then the five segments between neighbours.\<close>

definition draw_points :: "(Day \<Rightarrow> QString) \<Rightarrow> Day list \<Rightarrow> QPoint list \<Rightarrow> paint_cmd list" where
  "draw_points temp ds points =
     concat (map (\<lambda>i. [DrawEllipse (points ! i) 3 3,
                       DrawText (px (points ! i) - 10) (py (points ! i) - 10)
                                (temp (ds ! i) @ str_degree)]) [0 ..< 6])
     @ map (\<lambda>i. DrawLine (points ! i) (points ! (i + 1))) [0 ..< 5]"

definition drawTempLineHigh :: "(QString \<Rightarrow> int32) \<Rightarrow> Geometry \<Rightarrow> Widget \<Rightarrow> paint_cmd list" where
  "drawTempLineHigh toInt g w =
     [SetRenderHint_Antialiasing, SetPen yellow, SetBrush yellow]
     @ draw_points mTempHigh (days w)
         (temp_points toInt mTempHigh (widget0404_height g) g (days w))"

definition drawTempLineLow :: "(QString \<Rightarrow> int32) \<Rightarrow> Geometry \<Rightarrow> Widget \<Rightarrow> paint_cmd list" where
  "drawTempLineLow toInt g w =
     [SetRenderHint_Antialiasing, SetPen blue, SetBrush blue]
     @ draw_points mTempLow (days w)
         (temp_points toInt mTempLow (widget0405_height g) g (days w))"

text \<open>The points that a chart's painter calls mark: the centres of its circles.\<close>

fun ellipse_centres :: "paint_cmd list \<Rightarrow> QPoint list" where
  "ellipse_centres [] = []"
| "ellipse_centres (DrawEllipse p rx ry # cs) = p # ellipse_centres cs"
| "ellipse_centres (c # cs) = ellipse_centres cs"

section \<open>Statements of the specification, and runs of several events\<close>

text \<open>A sequence of calls of \<open>getCityCodeFromName\<close> on one resolver: the codes returned,
  in order, and the resolver after the last call.\<close>

fun lookups ::
  "(QByteArray \<Rightarrow> QJsonDocument) \<Rightarrow> QByteArray \<Rightarrow> QString list \<Rightarrow> CityCodeUtils
     \<Rightarrow> QString list \<times> CityCodeUtils" where
  "lookups fromJson rawData [] u = ([], u)"
| "lookups fromJson rawData (n # ns) u =
     (let (c, u1) = getCityCodeFromName fromJson rawData n u;
          (cs, u2) = lookups fromJson rawData ns u1
      in (c # cs, u2))"

text \<open>A sequence of replies handled one after the other; the first error stops the
  program.\<close>

fun replies ::
  "(QByteArray \<Rightarrow> QJsonDocument) \<Rightarrow> QNetworkReply list \<Rightarrow> Widget \<Rightarrow> error + Widget" where
  "replies fromJson [] w = Inr w"
| "replies fromJson (r # rs) w =
     (case readHttpReply fromJson r w of Inl e \<Rightarrow> Inl e | Inr w' \<Rightarrow> replies fromJson rs w')"

text \<open>
  The payloads that the specification lets the parser refuse: bytes that are not valid
  JSON (the null document), a top-level value that is not an object, and an object whose
  \<open>data\<close> member is absent or is not an array.
\<close>

definition payload_refused :: "QJsonDocument \<Rightarrow> bool" where
  "payload_refused doc =
     (case doc of
        DocObject jsonRoot \<Rightarrow>
          \<not> (obj_contains jsonRoot (lit ''data'') \<and> isArray (obj_value jsonRoot (lit ''data'')))
      | _ \<Rightarrow> True)"

text \<open>
  The trend-curve layout in the words of the specification, on mathematical integers:
  the average is the sum divided by 6, truncated; point \<open>i\<close> has the x of anchor \<open>i\<close>
  and \<open>y = chartHeight / 2 - (temps[i] - average) * 3\<close>.
\<close>

definition layout_spec :: "int list \<Rightarrow> int list \<Rightarrow> int \<Rightarrow> (int \<times> int) list" where
  "layout_spec temps anchors chartHeight =
     (let average = sum_list temps sdiv 6
      in map (\<lambda>i. let offset = (temps ! i - average) * 3
                  in (anchors ! i, chartHeight sdiv 2 - offset)) [0 ..< 6])"

text \<open>The six temperatures a chart draws, the horizontal centres of the six day-strip
  labels, and a point, all read as signed integers.\<close>

definition chart_temps :: "(QString \<Rightarrow> int32) \<Rightarrow> (Day \<Rightarrow> QString) \<Rightarrow> Day list \<Rightarrow> int list" where
  "chart_temps toInt temp ds = map (\<lambda>i. sint (toInt (temp (ds ! i)))) [0 ..< 6]"

definition chart_anchors :: "Geometry \<Rightarrow> int list" where
  "chart_anchors g =
     map (\<lambda>i. sint (mAirqList_x g ! i + sdiv32 (mAirqList_width g ! i) 2)) [0 ..< 6]"

definition point_int :: "QPoint \<Rightarrow> int \<times> int" where
  "point_int p = (sint (px p), sint (py p))"

text \<open>Temperatures small enough that no sum or product of the layout leaves the range
  of \<open>int\<close>: at most \<open>10^8\<close> in absolute value each.\<close>

definition temps_in_range :: "int list \<Rightarrow> bool" where
  "temps_in_range ts = list_all (\<lambda>t. \<bar>t\<bar> \<le> 100000000) ts"

section \<open>Concrete inputs\<close>

text \<open>Chinese texts used below: U+5317 U+4EAC (Beijing), U+4E0A U+6D77 (Shanghai),
  U+6674 (sunny), U+591A U+4E91 (cloudy).\<close>

definition str_beijing :: QString where
  "str_beijing = [0x5317, 0x4EAC]"

definition str_shanghai :: QString where
  "str_shanghai = [0x4E0A, 0x6D77]"

definition str_sunny :: QString where
  "str_sunny = [0x6674]"

definition str_cloudy :: QString where
  "str_cloudy = [0x591A, 0x4E91]"

text \<open>A city dataset of two entries: Beijing with the suffix U+5E02, and Shanghai
  without a suffix.\<close>

definition ex_citycode :: QJsonDocument where
  "ex_citycode = DocArray [
     Object [(lit ''city_name'', String (str_beijing @ str_shi)),
             (lit ''city_code'', String (lit ''101010100''))],
     Object [(lit ''city_name'', String str_shanghai),
             (lit ''city_code'', String (lit ''101020100''))]]"

text \<open>One day object of a forecast payload, with the members \<open>date\<close>, \<open>wea\<close>, \<open>tem1\<close>
  and \<open>tem2\<close>.\<close>

definition ex_day_obj :: "string \<Rightarrow> QString \<Rightarrow> string \<Rightarrow> string \<Rightarrow> QJsonValue" where
  "ex_day_obj date wea hi lo =
     Object [(lit ''date'', String (lit date)), (lit ''wea'', String wea),
             (lit ''tem1'', String (lit hi)), (lit ''tem2'', String (lit lo))]"

text \<open>A forecast for Beijing with six days; the second day turns from cloudy to sunny.\<close>

definition ex_forecast_data :: "QJsonValue list" where
  "ex_forecast_data = [
     ex_day_obj ''2025-03-01'' str_sunny ''0'' ''-5'',
     ex_day_obj ''2025-03-02'' (str_cloudy @ str_zhuan @ str_sunny) ''10'' ''-5'',
     ex_day_obj ''2025-03-03'' str_cloudy ''20'' ''-5'',
     ex_day_obj ''2025-03-04'' str_sunny ''0'' ''-5'',
     ex_day_obj ''2025-03-05'' str_sunny ''10'' ''-5'',
     ex_day_obj ''2025-03-06'' str_cloudy ''20'' ''-5'']"

definition ex_forecast_root :: "(QString \<times> QJsonValue) list" where
  "ex_forecast_root = [
     (lit ''city'', String str_beijing),
     (lit ''aqi'', Object [(lit ''pm25'', String (lit ''35''))]),
     (lit ''data'', Array ex_forecast_data)]"

definition ex_forecast :: QJsonDocument where
  "ex_forecast = DocObject ex_forecast_root"

text \<open>An object with a city and an empty \<open>data\<close> array; an object with a city and no
  \<open>data\<close> member; a forecast whose \<open>data\<close> array has eight elements.\<close>

definition ex_empty_data :: QJsonDocument where
  "ex_empty_data = DocObject [(lit ''city'', String str_shanghai), (lit ''data'', Array [])]"

definition ex_no_data :: QJsonDocument where
  "ex_no_data = DocObject [(lit ''city'', String str_shanghai)]"

definition ex_eight_root :: "(QString \<times> QJsonValue) list" where
  "ex_eight_root = [(lit ''data'', Array (replicate 8 (Object [])))]"

definition ex_eight_days :: QJsonDocument where
  "ex_eight_days = DocObject ex_eight_root"

text \<open>A stand-in for \<open>QJsonDocument::fromJson\<close> that knows five byte arrays; every other
  byte array is taken as invalid JSON.\<close>

definition ex_fromJson :: "QByteArray \<Rightarrow> QJsonDocument" where
  "ex_fromJson bytes =
     (if bytes = ''citycode.json'' then ex_citycode
      else if bytes = ''forecast'' then ex_forecast
      else if bytes = ''empty data'' then ex_empty_data
      else if bytes = ''no data'' then ex_no_data
      else if bytes = ''eight days'' then ex_eight_days
      else DocNull)"

text \<open>A stand-in for \<open>QString::toInt\<close> on the numerals used below; 0 for any other
  text, as \<open>toInt\<close> gives for text that is no number.\<close>

definition ex_toInt :: "QString \<Rightarrow> int32" where
  "ex_toInt s =
     (if s = lit ''0'' then 0
      else if s = lit ''10'' then 10
      else if s = lit ''20'' then 20
      else if s = lit ''-5'' then - 5
      else if s = lit ''2147483647'' then 2147483647
      else 0)"

text \<open>A default-constructed day (every text empty), a form with six labels in every
  list and nothing shown, and a geometry.\<close>

definition ex_day0 :: Day where
  "ex_day0 = \<lparr>mCity = [], mDate = [], mWeek = [], mWeathType = [], mTemp = [], mTempLow = [],
              mTempHigh = [], mFx = [], mFl = [], mAirq = [], mTips = [], mHu = [], mPm25 = []\<rparr>"

definition ex_ui0 :: Ui where
  "ex_ui0 = \<lparr>lineEditCity = [], labelCurrentDate = [], labelCity = [], labelTmp = [],
             labelTempRange = [], labelWeatherType = [], labelWeatherIcon = [], labelGanbao = [],
             labelFXType = [], labelFXData = [], labelPM25Data = [], labelShiDuData = [],
             labelAirQualityData = [],
             mWeekList = replicate 6 [], mDateList = replicate 6 [], mIconList = replicate 6 [],
             mWeaTypeList = replicate 6 [], mAirqList = replicate 6 [],
             mAirqList_styleSheet = replicate 6 [], mFxList = replicate 6 [],
             mFlList = replicate 6 [], updates = 0\<rparr>"

definition ex_geometry :: Geometry where
  "ex_geometry = \<lparr>mAirqList_x = [10, 100, 190, 280, 370, 460],
                  mAirqList_width = [70, 70, 70, 70, 70, 70],
                  widget0404_height = 140, widget0405_height = 141\<rparr>"

text \<open>The window as constructed, and a reply with status 200 and the given body.\<close>

definition ex_widget0 :: Widget where
  "ex_widget0 = Widget_new (replicate 7 ex_day0) ex_ui0"

definition ex_ok :: "QByteArray \<Rightarrow> QNetworkReply" where
  "ex_ok body = \<lparr>reply_error = NoError, httpStatusCode = 200, readAll = body\<rparr>"

text \<open>A reply with status 404, and the window with a text typed into the line edit.\<close>

definition ex_not_found :: QNetworkReply where
  "ex_not_found = \<lparr>reply_error = NoError, httpStatusCode = 404, readAll = []\<rparr>"

definition ex_typed :: "QString \<Rightarrow> Widget" where
  "ex_typed q = ex_widget0\<lparr>ui := ex_ui0\<lparr>lineEditCity := q\<rparr>\<rparr>"

text \<open>Six days that all have the highest temperature an \<open>int\<close> can hold.\<close>

definition ex_hot_days :: "Day list" where
  "ex_hot_days = replicate 7 (ex_day0\<lparr>mTempHigh := lit ''2147483647''\<rparr>)"

text \<open>
  The forecast for Beijing as the parser stores it, and the display that \<open>updateUI\<close>
  renders from it. The texts that the payload does not carry are empty.
\<close>

definition ex_day :: "string \<Rightarrow> QString \<Rightarrow> string \<Rightarrow> string \<Rightarrow> Day" where
  "ex_day date wea hi lo =
     ex_day0\<lparr>mDate := lit date, mWeathType := wea, mTempLow := lit lo, mTempHigh := lit hi\<rparr>"

definition ex_days :: "Day list" where
  "ex_days = [
     (ex_day ''2025-03-01'' str_sunny ''0'' ''-5'')\<lparr>mCity := str_beijing, mPm25 := lit ''35''\<rparr>,
     ex_day ''2025-03-02'' (str_cloudy @ str_zhuan @ str_sunny) ''10'' ''-5'',
     ex_day ''2025-03-03'' str_cloudy ''20'' ''-5'',
     ex_day ''2025-03-04'' str_sunny ''0'' ''-5'',
     ex_day ''2025-03-05'' str_sunny ''10'' ''-5'',
     ex_day ''2025-03-06'' str_cloudy ''20'' ''-5'',
     ex_day0]"

definition ex_shown_ui :: Ui where
  "ex_shown_ui =
     ex_ui0\<lparr>labelCurrentDate := lit ''2025-03-01  '',
            labelCity := str_beijing @ str_shi,
            labelTmp := str_celsius,
            labelTempRange := lit ''-5'' @ str_celsius @ lit ''~0'' @ str_celsius,
            labelWeatherType := str_sunny,
            labelWeatherIcon := lit '':/type/Qing.png'',
            labelPM25Data := lit ''35'',
            mWeekList := [str_today, str_tomorrow, str_day_after, [], [], []],
            mDateList := [lit ''03-01'', lit ''03-02'', lit ''03-03'', lit ''03-04'',
                          lit ''03-05'', lit ''03-06''],
            mIconList := [lit '':/type/Qing.png'', [], lit '':/type/DuoYun.png'',
                          lit '':/type/Qing.png'', lit '':/type/Qing.png'',
                          lit '':/type/DuoYun.png''],
            mWeaTypeList := [str_sunny, str_cloudy @ str_zhuan @ str_sunny, str_cloudy,
                             str_sunny, str_sunny, str_cloudy],
            updates := 1\<rparr>"

text \<open>The window after the first reply brought that forecast. The two keys at the end
  of the icon table were inserted by \<open>mTypeMap[...]\<close> for the second day.\<close>

definition ex_shown :: Widget where
  "ex_shown =
     ex_widget0\<lparr>days := ex_days, ui := ex_shown_ui,
                mTypeMap := mTypeMap_init @ [(str_zhuan @ str_sunny, []),
                                             (str_cloudy @ str_zhuan @ str_sunny, [])]\<rparr>"

text \<open>The window after a second reply brought the empty \<open>data\<close> array for Shanghai.\<close>

definition ex_after_empty :: Widget where
  "ex_after_empty =
     ex_shown\<lparr>days := ex_days[0 := (ex_days ! 0)\<lparr>mCity := str_shanghai, mPm25 := []\<rparr>],
              ui := ex_shown_ui\<lparr>labelCity := str_shanghai @ str_shi, labelPM25Data := [],
                                updates := 2\<rparr>\<rparr>"

section \<open>Auxiliary facts: literals, lists and tables\<close>

lemmas str_defs = str_shi_def str_xian_def str_qu_def str_zhuan_def str_celsius_def str_degree_def
  str_today_def str_tomorrow_def str_day_after_def str_excellent_def str_good_def str_light_def
  str_moderate_def str_severe_def str_error_title_def str_network_failed_def str_wrong_city_def
  str_beijing_def str_shanghai_def str_sunny_def str_cloudy_def

lemma upt6: "[0 ..< 6] = [0, 1, 2, 3, 4, 5::nat]"
  by (simp add: upt_rec)

lemma upt5: "[0 ..< 5] = [0, 1, 2, 3, 4::nat]"
  by (simp add: upt_rec)

lemma list_update_numeral: "(x # xs)[numeral k := y] = x # xs[pred_numeral k := y]"
  by (simp add: numeral_eq_Suc)

lemma replicate_numeral: "replicate (numeral k) x = x # replicate (pred_numeral k) x"
  by (simp add: numeral_eq_Suc)

lemma map_of_append_case:
  "map_of (xs @ ys) k = (case map_of xs k of None \<Rightarrow> map_of ys k | Some v \<Rightarrow> Some v)"
  by (simp add: map_add_def)

lemma QMap_insert_new: "map_of m k = None \<Longrightarrow> QMap_insert k v m = m @ [(k, v)]"
  unfolding QMap_insert_def by (induction m) auto

section \<open>The resolver: resolution order\<close>

lemma table_in_use_nonempty:
  "CityMap u \<noteq> [] \<Longrightarrow> table_in_use fromJson rawData u = CityMap u"
  by (simp add: table_in_use_def)

lemma getCityCodeFromName_state:
  "snd (getCityCodeFromName fromJson rawData n u) =
     (if CityMap u = [] then InitCityMap fromJson rawData u else u)"
  by (simp add: getCityCodeFromName_def Let_def split: option.splits)

lemma getCityCodeFromName_result:
  "fst (getCityCodeFromName fromJson rawData n u) =
     resolve_spec (table_in_use fromJson rawData u) n"
  by (simp add: getCityCodeFromName_def resolve_spec_def table_in_use_def Let_def
      split: option.splits)

text \<open>
  Claim C1. For every city name \<open>n\<close>, \<open>getCityCodeFromName\<close> returns what the rule of the
  specification gives on the table the resolver holds after the call (the stored table,
  loaded first when it was empty): the code stored for \<open>n\<close> when \<open>n\<close> is a key; otherwise
  the code stored for \<open>n\<close> with U+5E02 appended when that is a key; otherwise for \<open>n\<close> with
  U+53BF; otherwise for \<open>n\<close> with U+533A; and the empty string when all four keys are
  absent. Keys are compared as sequences of code units, so the match is exact and
  case-sensitive.
\<close>

theorem getCityCodeFromName_resolves:
  "fst (getCityCodeFromName fromJson rawData n u) =
     resolve_spec (CityMap (snd (getCityCodeFromName fromJson rawData n u))) n
   \<and> CityMap (snd (getCityCodeFromName fromJson rawData n u)) = table_in_use fromJson rawData u"
  by (simp add: getCityCodeFromName_result getCityCodeFromName_state table_in_use_def)

section \<open>The resolver: how often the dataset is loaded\<close>

lemma InitCityMap_initCalls: "initCalls (InitCityMap fromJson rawData u) = Suc (initCalls u)"
  by (simp add: InitCityMap_def Let_def split: QJsonDocument.splits)

lemma InitCityMap_CityMap:
  "CityMap (InitCityMap fromJson rawData u) =
     (case fromJson rawData of DocArray citys \<Rightarrow> insert_cities citys (CityMap u) | _ \<Rightarrow> CityMap u)"
  by (simp add: InitCityMap_def Let_def split: QJsonDocument.splits)

lemma table_in_use_cong:
  assumes "CityMap u' = CityMap u"
  shows "table_in_use fromJson rawData u' = table_in_use fromJson rawData u"
  unfolding table_in_use_def InitCityMap_CityMap assms by (rule refl)

lemma lookups_loaded:
  "CityMap u \<noteq> [] \<Longrightarrow> snd (lookups fromJson rawData ns u) = u"
  by (induction ns) (simp_all add: split_def Let_def getCityCodeFromName_state)

lemma lookups_failing:
  "CityMap u = [] \<Longrightarrow> table_in_use fromJson rawData u = []
     \<Longrightarrow> initCalls (snd (lookups fromJson rawData ns u)) = initCalls u + length ns
         \<and> CityMap (snd (lookups fromJson rawData ns u)) = []"
proof (induction ns arbitrary: u)
  case Nil
  then show ?case by simp
next
  case (Cons n ns)
  let ?u1 = "InitCityMap fromJson rawData u"
  have e: "CityMap ?u1 = []" using Cons.prems by (simp add: table_in_use_def)
  then have t: "table_in_use fromJson rawData ?u1 = []"
    using Cons.prems table_in_use_cong [of ?u1 u fromJson rawData] by simp
  show ?case
    using Cons.IH [OF e t] Cons.prems
    by (simp add: split_def Let_def getCityCodeFromName_state InitCityMap_initCalls)
qed

lemma lookups_initCalls:
  "initCalls (snd (lookups fromJson rawData ns u)) =
     initCalls u + (if table_in_use fromJson rawData u = [] then length ns
                    else if CityMap u = [] then min 1 (length ns) else 0)"
proof (cases "CityMap u = []")
  case False
  then show ?thesis by (simp add: lookups_loaded table_in_use_def)
next
  case empty: True
  show ?thesis
  proof (cases "table_in_use fromJson rawData u = []")
    case True
    with empty show ?thesis by (simp add: lookups_failing)
  next
    case False
    with empty have l: "CityMap (InitCityMap fromJson rawData u) \<noteq> []"
      by (simp add: table_in_use_def)
    show ?thesis
    proof (cases ns)
      case Nil
      with False empty show ?thesis by simp
    next
      case (Cons n ns')
      with False empty l show ?thesis
        by (simp add: split_def Let_def getCityCodeFromName_state lookups_loaded
            InitCityMap_initCalls)
    qed
  qed
qed

lemma getCityCodeFromName_same_table:
  "CityMap u' = CityMap u \<Longrightarrow>
     fst (getCityCodeFromName fromJson rawData n u') = fst (getCityCodeFromName fromJson rawData n u)"
  using table_in_use_cong [of u' u fromJson rawData]
  by (simp add: getCityCodeFromName_result)

lemma getCityCodeFromName_again:
  "table_in_use fromJson rawData (snd (getCityCodeFromName fromJson rawData n u)) =
     table_in_use fromJson rawData u"
proof (cases "CityMap u = []")
  case False
  then show ?thesis by (simp add: getCityCodeFromName_state)
next
  case True
  let ?u1 = "InitCityMap fromJson rawData u"
  have s: "snd (getCityCodeFromName fromJson rawData n u) = ?u1"
    using True by (simp add: getCityCodeFromName_state)
  show ?thesis
  proof (cases "CityMap ?u1 = []")
    case e: True
    then have "CityMap ?u1 = CityMap u" using True by simp
    then show ?thesis unfolding s by (rule table_in_use_cong)
  next
    case False
    then show ?thesis unfolding s using True by (simp add: table_in_use_def)
  qed
qed

text \<open>
  Claim C9, as amended. \<open>InitCityMap\<close> runs on exactly those calls that find the table
  empty. Over any sequence of calls on one resolver it therefore runs once at most when
  the table is, or becomes by the first load, not empty; when the load leaves the table
  empty (the dataset is missing or malformed) it runs again on every call. The code
  returned depends on the table and the name only: two resolvers with the same table
  return the same code, and so does a second call with the same name.
\<close>

theorem load_runs_while_table_empty:
  "initCalls (snd (lookups fromJson rawData ns u)) =
     initCalls u + (if table_in_use fromJson rawData u = [] then length ns
                    else if CityMap u = [] then min 1 (length ns) else 0)
   \<and> (CityMap u' = CityMap u \<longrightarrow>
        fst (getCityCodeFromName fromJson rawData n u') = fst (getCityCodeFromName fromJson rawData n u))
   \<and> fst (getCityCodeFromName fromJson rawData n (snd (getCityCodeFromName fromJson rawData n u))) =
       fst (getCityCodeFromName fromJson rawData n u)"
  using getCityCodeFromName_same_table [of u' u fromJson rawData n]
  by (simp add: lookups_initCalls getCityCodeFromName_result getCityCodeFromName_again)

section \<open>The trend charts\<close>

lemma sint_word_of_int32:
  "- 2147483648 \<le> k \<Longrightarrow> k < 2147483648 \<Longrightarrow> sint (word_of_int k :: int32) = k"
  by (simp add: sint_sbintrunc' signed_take_bit_int_eq_self)

lemma sint_add32:
  "- 2147483648 \<le> sint a + sint b \<Longrightarrow> sint a + sint b < 2147483648
     \<Longrightarrow> sint (a + b :: int32) = sint a + sint b"
  by (simp add: sint_word_ariths signed_take_bit_int_eq_self)

lemma sint_sub32:
  "- 2147483648 \<le> sint a - sint b \<Longrightarrow> sint a - sint b < 2147483648
     \<Longrightarrow> sint (a - b :: int32) = sint a - sint b"
  by (simp add: sint_word_ariths signed_take_bit_int_eq_self)

lemma sint_mul3:
  "- 2147483648 \<le> sint a * 3 \<Longrightarrow> sint a * 3 < 2147483648
     \<Longrightarrow> sint (a * 3 :: int32) = sint a * 3"
  by (simp add: sint_word_ariths signed_take_bit_int_eq_self)


lemma sdiv6_eq: "k sdiv 6 = (if 0 \<le> k then k div 6 else - ((- k) div 6))" for k :: int
  by (simp add: signed_divide_int_def sgn_if)

lemma sdiv2_eq: "k sdiv 2 = (if 0 \<le> k then k div 2 else - ((- k) div 2))" for k :: int
  by (simp add: signed_divide_int_def sgn_if)

lemma sint_bounds32: "- 2147483648 \<le> sint (a :: int32) \<and> sint a < 2147483648"
  using sint_ge [of a] sint_lt [of a] by simp



lemma sdiv6_abs_le: "\<bar>k\<bar> \<le> 6 * b \<Longrightarrow> \<bar>k sdiv 6\<bar> \<le> b" for k b :: int
  by (simp add: sdiv6_eq) arith

lemma sdiv2_abs_le: "\<bar>k\<bar> \<le> 2 * b \<Longrightarrow> \<bar>k sdiv 2\<bar> \<le> b" for k b :: int
  by (simp add: sdiv2_eq) arith

lemma sint_sdiv32_6: "sint (sdiv32 a 6) = sint a sdiv 6"
proof -
  have "\<bar>sint a\<bar> \<le> 6 * 357913942" using sint_bounds32 [of a] by arith
  then have "\<bar>sint a sdiv 6\<bar> \<le> 357913942" by (rule sdiv6_abs_le)
  then show ?thesis by (simp add: sdiv32_def sint_word_of_int32)
qed

lemma sint_sdiv32_2: "sint (sdiv32 a 2) = sint a sdiv 2"
proof -
  have "\<bar>sint a\<bar> \<le> 2 * 1073741824" using sint_bounds32 [of a] by arith
  then have "\<bar>sint a sdiv 2\<bar> \<le> 1073741824" by (rule sdiv2_abs_le)
  then show ?thesis by (simp add: sdiv32_def sint_word_of_int32)
qed

lemma sdiv6_same: "(6 * c) sdiv 6 = c" for c :: int
proof -
  have "- (6 * c) = 6 * (- c)" by simp
  then show ?thesis by (simp only: sdiv6_eq nonzero_mult_div_cancel_left) simp
qed

lemma sint_add32_abs:
  "\<bar>sint a\<bar> \<le> m \<Longrightarrow> \<bar>sint b\<bar> \<le> n \<Longrightarrow> m + n < 2147483648
     \<Longrightarrow> sint (a + b :: int32) = sint a + sint b"
  by (rule sint_add32) arith+

lemma sint_sub32_abs:
  "\<bar>sint a\<bar> \<le> m \<Longrightarrow> \<bar>sint b\<bar> \<le> n \<Longrightarrow> m + n < 2147483648
     \<Longrightarrow> sint (a - b :: int32) = sint a - sint b"
  by (rule sint_sub32) arith+

lemma sint_mul3_abs:
  "\<bar>sint a\<bar> \<le> m \<Longrightarrow> 3 * m < 2147483648 \<Longrightarrow> sint (a * 3 :: int32) = sint a * 3"
  by (rule sint_mul3) arith+

lemma sint_sum6:
  fixes t0 t1 t2 t3 t4 t5 :: int32
  assumes "\<bar>sint t0\<bar> \<le> 100000000" "\<bar>sint t1\<bar> \<le> 100000000" "\<bar>sint t2\<bar> \<le> 100000000"
    "\<bar>sint t3\<bar> \<le> 100000000" "\<bar>sint t4\<bar> \<le> 100000000" "\<bar>sint t5\<bar> \<le> 100000000"
  shows "sint (t0 + t1 + t2 + t3 + t4 + t5) = sint t0 + sint t1 + sint t2 + sint t3 + sint t4 + sint t5"
proof -
  have 1: "sint (t0 + t1) = sint t0 + sint t1"
    using assms(1,2) by (rule sint_add32_abs) simp
  then have b1: "\<bar>sint (t0 + t1)\<bar> \<le> 200000000" using assms(1,2) by arith
  have 2: "sint (t0 + t1 + t2) = sint (t0 + t1) + sint t2"
    using b1 assms(3) by (rule sint_add32_abs) simp
  then have b2: "\<bar>sint (t0 + t1 + t2)\<bar> \<le> 300000000" using b1 assms(3) by arith
  have 3: "sint (t0 + t1 + t2 + t3) = sint (t0 + t1 + t2) + sint t3"
    using b2 assms(4) by (rule sint_add32_abs) simp
  then have b3: "\<bar>sint (t0 + t1 + t2 + t3)\<bar> \<le> 400000000" using b2 assms(4) by arith
  have 4: "sint (t0 + t1 + t2 + t3 + t4) = sint (t0 + t1 + t2 + t3) + sint t4"
    using b3 assms(5) by (rule sint_add32_abs) simp
  then have b4: "\<bar>sint (t0 + t1 + t2 + t3 + t4)\<bar> \<le> 500000000" using b3 assms(5) by arith
  have 5: "sint (t0 + t1 + t2 + t3 + t4 + t5) = sint (t0 + t1 + t2 + t3 + t4) + sint t5"
    using b4 assms(6) by (rule sint_add32_abs) simp
  show ?thesis by (simp only: 1 2 3 4 5)
qed

lemma sint_point_y:
  fixes t s h :: int32
  assumes t: "\<bar>sint t\<bar> \<le> 100000000" and s: "\<bar>sint s\<bar> \<le> 600000000"
    and h: "\<bar>sint h\<bar> \<le> 1000000000"
  shows "sint (sdiv32 h 2 - (t - sdiv32 s 6) * 3) = sint h sdiv 2 - (sint t - sint s sdiv 6) * 3"
proof -
  have a: "\<bar>sint (sdiv32 s 6)\<bar> \<le> 100000000"
    using s by (simp add: sint_sdiv32_6 sdiv6_abs_le)
  have d: "sint (t - sdiv32 s 6) = sint t - sint (sdiv32 s 6)"
    using t a by (rule sint_sub32_abs) simp
  then have db: "\<bar>sint (t - sdiv32 s 6)\<bar> \<le> 200000000" using t a by arith
  have m: "sint ((t - sdiv32 s 6) * 3) = sint (t - sdiv32 s 6) * 3"
    using db by (rule sint_mul3_abs) simp
  then have mb: "\<bar>sint ((t - sdiv32 s 6) * 3)\<bar> \<le> 600000000" using db by arith
  have hb: "\<bar>sint (sdiv32 h 2)\<bar> \<le> 500000000"
    using h by (simp add: sint_sdiv32_2 sdiv2_abs_le)
  have "sint (sdiv32 h 2 - (t - sdiv32 s 6) * 3) = sint (sdiv32 h 2) - sint ((t - sdiv32 s 6) * 3)"
    using hb mb by (rule sint_sub32_abs) simp
  then show ?thesis by (simp only: m d sint_sdiv32_6 sint_sdiv32_2)
qed


lemma temp_sum_eq:
  "temp_sum toInt temp ds =
     toInt (temp (ds ! 0)) + toInt (temp (ds ! 1)) + toInt (temp (ds ! 2))
     + toInt (temp (ds ! 3)) + toInt (temp (ds ! 4)) + toInt (temp (ds ! 5))"
  by (simp add: temp_sum_def upt6)

lemma temps_in_range_nth:
  "temps_in_range (chart_temps toInt temp ds) \<Longrightarrow> i < 6
     \<Longrightarrow> \<bar>sint (toInt (temp (ds ! i)))\<bar> \<le> 100000000"
  by (simp add: temps_in_range_def chart_temps_def list_all_iff)

lemma sum_list_chart_temps:
  assumes "temps_in_range (chart_temps toInt temp ds)"
  shows "sum_list (chart_temps toInt temp ds) = sint (temp_sum toInt temp ds)"
    and "\<bar>sint (temp_sum toInt temp ds)\<bar> \<le> 600000000"
proof -
  note b = temps_in_range_nth [OF assms]
  have s: "sint (temp_sum toInt temp ds) =
      sint (toInt (temp (ds ! 0))) + sint (toInt (temp (ds ! 1))) + sint (toInt (temp (ds ! 2)))
      + sint (toInt (temp (ds ! 3))) + sint (toInt (temp (ds ! 4))) + sint (toInt (temp (ds ! 5)))"
    unfolding temp_sum_eq by (rule sint_sum6) (simp_all add: b)
  show "sum_list (chart_temps toInt temp ds) = sint (temp_sum toInt temp ds)"
    by (simp add: s chart_temps_def upt6)
  have "\<bar>sint (toInt (temp (ds ! 0)))\<bar> \<le> 100000000" "\<bar>sint (toInt (temp (ds ! 1)))\<bar> \<le> 100000000"
    "\<bar>sint (toInt (temp (ds ! 2)))\<bar> \<le> 100000000" "\<bar>sint (toInt (temp (ds ! 3)))\<bar> \<le> 100000000"
    "\<bar>sint (toInt (temp (ds ! 4)))\<bar> \<le> 100000000" "\<bar>sint (toInt (temp (ds ! 5)))\<bar> \<le> 100000000"
    by (simp_all add: b)
  then show "\<bar>sint (temp_sum toInt temp ds)\<bar> \<le> 600000000"
    unfolding s by arith
qed

lemma temp_points_int:
  assumes r: "temps_in_range (chart_temps toInt temp ds)" and h: "\<bar>sint height\<bar> \<le> 1000000000"
  shows "map point_int (temp_points toInt temp height g ds) =
           layout_spec (chart_temps toInt temp ds) (chart_anchors g) (sint height)"
proof -
  note y = sint_point_y [OF temps_in_range_nth [OF r] sum_list_chart_temps(2) [OF r] h]
  have n: "chart_temps toInt temp ds ! i = sint (toInt (temp (ds ! i)))" if "i < 6" for i
    using that by (simp add: chart_temps_def)
  have a: "chart_anchors g ! i = sint (mAirqList_x g ! i + sdiv32 (mAirqList_width g ! i) 2)"
    if "i < 6" for i
    using that by (simp add: chart_anchors_def)
  show ?thesis
    unfolding temp_points_def layout_spec_def Let_def sum_list_chart_temps(1) [OF r]
    by (simp add: point_int_def n a y del: left_diff_distrib_numeral right_diff_distrib_numeral)
qed

lemma ellipse_centres_draw_points:
  "ellipse_centres (draw_points temp ds (temp_points toInt temp' height g ds')) =
     temp_points toInt temp' height g ds'"
  by (simp add: draw_points_def temp_points_def Let_def upt6 upt5)

lemma layout_spec_flat:
  "map snd (layout_spec (replicate 6 c) anchors h) = replicate 6 (h sdiv 2)"
proof -
  have "(c + (c + (c + (c + (c + c))))) sdiv 6 = c"
    using sdiv6_same [of c] by (simp add: algebra_simps)
  then show ?thesis
    by (simp add: layout_spec_def upt6 numeral_eq_Suc)
qed

lemma layout_spec_example:
  "map snd (layout_spec [0, 10, 20, 0, 10, 20] anchors h) =
     map (\<lambda>offset. h sdiv 2 - offset) [- 30, 0, 30, - 30, 0, 30]"
  by (simp add: layout_spec_def upt6 sdiv6_eq)

text \<open>
  Claim C2, as amended. When each of the six temperatures drawn is at most \<open>10^8\<close> in
  absolute value and the height of the chart widget at most \<open>10^9\<close> (so that no sum,
  difference or product leaves the range of \<open>int\<close>), the centres of the six circles of
  either chart are the layout of the specification: \<open>average\<close> is the sum of the six
  temperatures divided by 6 and truncated, and point \<open>i\<close> has as x the horizontal centre
  of the air-quality label \<open>i\<close> of the day strip and \<open>y = h / 2 - (temps[i] - average) * 3\<close>.
  This holds for the chart of the high and for that of the low temperatures. Hence six
  equal temperatures give \<open>h / 2\<close> six times, and \<open>[0, 10, 20, 0, 10, 20]\<close> gives the
  offsets \<open>[-30, 0, 30, -30, 0, 30]\<close>.
\<close>

theorem trend_layout:
  assumes "temps_in_range (chart_temps toInt mTempHigh (days w))"
    and "temps_in_range (chart_temps toInt mTempLow (days w))"
    and "\<bar>sint (widget0404_height g)\<bar> \<le> 1000000000"
    and "\<bar>sint (widget0405_height g)\<bar> \<le> 1000000000"
  shows "map point_int (ellipse_centres (drawTempLineHigh toInt g w)) =
           layout_spec (chart_temps toInt mTempHigh (days w)) (chart_anchors g)
             (sint (widget0404_height g))
       \<and> map point_int (ellipse_centres (drawTempLineLow toInt g w)) =
           layout_spec (chart_temps toInt mTempLow (days w)) (chart_anchors g)
             (sint (widget0405_height g))
       \<and> map snd (layout_spec (replicate 6 c) anchors h) = replicate 6 (h sdiv 2)
       \<and> map snd (layout_spec [0, 10, 20, 0, 10, 20] anchors h) =
           map (\<lambda>offset. h sdiv 2 - offset) [- 30, 0, 30, - 30, 0, 30]"
  using assms
  by (simp add: drawTempLineHigh_def drawTempLineLow_def ellipse_centres_draw_points
      temp_points_int layout_spec_flat layout_spec_example)

section \<open>The parser\<close>

lemma parse_not_object:
  "\<forall>jsonRoot. fromJson rawData \<noteq> DocObject jsonRoot
     \<Longrightarrow> parseWeatherJsonDataNew fromJson rawData w = Inr w"
  by (cases "fromJson rawData") (simp_all add: parseWeatherJsonDataNew_def)

lemma two_writes:
  "(ds[0 := (ds ! 0)\<lparr>mCity := c\<rparr>])[0 := (ds[0 := (ds ! 0)\<lparr>mCity := c\<rparr>] ! 0)\<lparr>mPm25 := p\<rparr>] =
     ds[0 := (ds ! 0)\<lparr>mCity := c, mPm25 := p\<rparr>]"
  "ds[0 := (ds[0 := (ds ! 0)\<lparr>mCity := c\<rparr>] ! 0)\<lparr>mPm25 := p\<rparr>] =
     ds[0 := (ds ! 0)\<lparr>mCity := c, mPm25 := p\<rparr>]"
  by (cases ds; simp)+

lemma parse_object_no_data:
  assumes "doc = DocObject jsonRoot"
    and "\<not> (obj_contains jsonRoot (lit ''data'') \<and> isArray (obj_value jsonRoot (lit ''data'')))"
    and "fromJson rawData = doc"
  shows "parseWeatherJsonDataNew fromJson rawData w =
           Inr (w\<lparr>days := (days w)[0 := (days w ! 0)
                  \<lparr>mCity := toString (obj_value jsonRoot (lit ''city'')),
                    mPm25 := toString (val_at (obj_value jsonRoot (lit ''aqi'')) (lit ''pm25''))\<rparr>]\<rparr>)"
  using assms by (auto simp add: parseWeatherJsonDataNew_def Let_def two_writes)

lemma parse_object_data:
  assumes d: "doc = DocObject jsonRoot"
    and a: "obj_value jsonRoot (lit ''data'') = Array weaArray"
    and f: "fromJson rawData = doc"
  shows "parseWeatherJsonDataNew fromJson rawData w =
           (case fill_days weaArray 0
                   ((days w)[0 := (days w ! 0)
                      \<lparr>mCity := toString (obj_value jsonRoot (lit ''city'')),
                        mPm25 := toString (val_at (obj_value jsonRoot (lit ''aqi'')) (lit ''pm25''))\<rparr>]) of
              Inl e \<Rightarrow> Inl e
            | Inr ds' \<Rightarrow> updateUI (w\<lparr>days := ds'\<rparr>))"
proof -
  have c: "obj_contains jsonRoot (lit ''data'')"
    using a by (simp add: obj_contains_def obj_value_def split: option.splits)
  show ?thesis
    by (simp add: parseWeatherJsonDataNew_def f d Let_def two_writes c a split: sum.splits)
qed

lemma nth_update_two_fields:
  "(ds[0 := (ds ! 0)\<lparr>mCity := c, mPm25 := p\<rparr>] ! 0)\<lparr>mCity := mCity (ds ! 0), mPm25 := mPm25 (ds ! 0)\<rparr>
     = ds ! 0"
  by (cases ds) simp_all

text \<open>
  Claim C3, as amended. For a payload that is not valid JSON, or whose top-level value
  is not an object, or whose \<open>data\<close> member is absent or not an array, the parser
  returns without calling \<open>updateUI\<close>: the display and every other member of the window
  are unchanged, and so is every field of every element of \<open>days\<close>, except that an
  object payload has its \<open>city\<close> and \<open>aqi.pm25\<close> texts stored in \<open>days[0].mCity\<close> and
  \<open>days[0].mPm25\<close>. When the top-level value is not an object nothing at all changes.
\<close>

theorem parse_refused_frame:
  assumes "payload_refused (fromJson rawData)"
  shows "\<exists>w'. parseWeatherJsonDataNew fromJson rawData w = Inr w'
           \<and> ui w' = ui w \<and> mTypeMap w' = mTypeMap w \<and> strUrl w' = strUrl w
           \<and> requests w' = requests w \<and> messages w' = messages w
           \<and> length (days w') = length (days w)
           \<and> (\<forall>i. 0 < i \<longrightarrow> days w' ! i = days w ! i)
           \<and> (days w' ! 0)\<lparr>mCity := mCity (days w ! 0), mPm25 := mPm25 (days w ! 0)\<rparr> = days w ! 0
           \<and> ((\<forall>jsonRoot. fromJson rawData \<noteq> DocObject jsonRoot) \<longrightarrow> w' = w)"
proof (cases "fromJson rawData")
  case (DocObject jsonRoot)
  with assms have
    "\<not> (obj_contains jsonRoot (lit ''data'') \<and> isArray (obj_value jsonRoot (lit ''data'')))"
    by (simp add: payload_refused_def)
  from parse_object_no_data
    [where fromJson = fromJson and rawData = rawData and w = w, OF refl this DocObject]
  show ?thesis
    using DocObject by (simp add: nth_update_two_fields)
next
  case DocNull
  then show ?thesis by (simp add: parse_not_object)
next
  case (DocArray vs)
  then show ?thesis by (simp add: parse_not_object)
qed

section \<open>The bound of the forecast array\<close>

lemma fill_days_overflow:
  "i \<le> days_size \<Longrightarrow> days_size < i + length vs
     \<Longrightarrow> fill_days vs i ds = Inl (DaysIndexOutOfBounds days_size)"
proof (induction vs arbitrary: i ds)
  case Nil
  then show ?case by simp
next
  case (Cons v vs)
  show ?case
  proof (cases "i < days_size")
    case True
    with Cons.prems have "Suc i \<le> days_size" "days_size < Suc i + length vs" by simp_all
    from Cons.IH [OF this] True show ?thesis by simp
  next
    case False
    with Cons.prems have "i = days_size" by simp
    then show ?thesis by simp
  qed
qed

lemma fill_days_fits:
  "i + length vs \<le> days_size \<Longrightarrow> length ds = days_size
     \<Longrightarrow> \<exists>ds'. fill_days vs i ds = Inr ds' \<and> length ds' = days_size
           \<and> (\<forall>j. i \<le> j \<and> j < i + length vs
                 \<longrightarrow> ds' ! j = day_from_json (toObject (vs ! (j - i))) (ds ! j))
           \<and> (\<forall>j. j < i \<or> i + length vs \<le> j \<longrightarrow> ds' ! j = ds ! j)"
proof (induction vs arbitrary: i ds)
  case Nil
  then show ?case by auto
next
  case (Cons v vs)
  let ?ds1 = "ds[i := day_from_json (toObject v) (ds ! i)]"
  have i: "i < days_size" and s: "Suc i + length vs \<le> days_size" using Cons.prems by simp_all
  have l: "length ?ds1 = days_size" using Cons.prems by simp
  from Cons.IH [OF s l] obtain ds' where
    f: "fill_days vs (Suc i) ?ds1 = Inr ds'" and n: "length ds' = days_size"
    and a: "\<forall>j. Suc i \<le> j \<and> j < Suc i + length vs
              \<longrightarrow> ds' ! j = day_from_json (toObject (vs ! (j - Suc i))) (?ds1 ! j)"
    and b: "\<forall>j. j < Suc i \<or> Suc i + length vs \<le> j \<longrightarrow> ds' ! j = ?ds1 ! j"
    by blast
  have "fill_days (v # vs) i ds = Inr ds'" using f i by simp
  moreover have "\<forall>j. i \<le> j \<and> j < i + length (v # vs)
      \<longrightarrow> ds' ! j = day_from_json (toObject ((v # vs) ! (j - i))) (ds ! j)"
  proof (intro allI impI)
    fix j assume j: "i \<le> j \<and> j < i + length (v # vs)"
    show "ds' ! j = day_from_json (toObject ((v # vs) ! (j - i))) (ds ! j)"
    proof (cases "j = i")
      case True
      then have "ds' ! j = ?ds1 ! i" using b by simp
      then show ?thesis using True i Cons.prems by simp
    next
      case False
      with j have "Suc i \<le> j \<and> j < Suc i + length vs" by simp
      with a have "ds' ! j = day_from_json (toObject (vs ! (j - Suc i))) (?ds1 ! j)" by blast
      moreover have "(v # vs) ! (j - i) = vs ! (j - Suc i)" using False j by (simp add: nth_Cons')
      ultimately show ?thesis using False by simp
    qed
  qed
  moreover have "\<forall>j. j < i \<or> i + length (v # vs) \<le> j \<longrightarrow> ds' ! j = ds ! j"
  proof (intro allI impI)
    fix j assume "j < i \<or> i + length (v # vs) \<le> j"
    then have "j < Suc i \<or> Suc i + length vs \<le> j" and "j \<noteq> i" by auto
    with b show "ds' ! j = ds ! j" by auto
  qed
  ultimately show ?case using n by blast
qed

text \<open>
  Claim C10. For an object payload whose \<open>data\<close> member is an array, the parser writes
  \<open>days[j]\<close> for every \<open>j\<close> below the length of the array, and compares \<open>j\<close> with that
  length only. With at most 7 elements every write is inside the 7 slots of \<open>days\<close>:
  slot \<open>j\<close> gets the fields of element \<open>j\<close>, the other slots stay, and \<open>updateUI\<close> runs.
  With 8 or more elements the loop reaches \<open>days[7]\<close>, past the last slot.
\<close>

theorem days_written_without_bound:
  assumes "fromJson rawData = DocObject jsonRoot"
    and "obj_value jsonRoot (lit ''data'') = Array weaArray"
    and "length (days w) = days_size"
    and "ds0 = (days w)[0 := (days w ! 0)
           \<lparr>mCity := toString (obj_value jsonRoot (lit ''city'')),
             mPm25 := toString (val_at (obj_value jsonRoot (lit ''aqi'')) (lit ''pm25''))\<rparr>]"
  shows "(days_size < length weaArray \<longrightarrow>
            fill_days weaArray 0 ds0 = Inl (DaysIndexOutOfBounds days_size)
          \<and> parseWeatherJsonDataNew fromJson rawData w = Inl (DaysIndexOutOfBounds days_size))
       \<and> (length weaArray \<le> days_size \<longrightarrow>
            (\<exists>ds'. fill_days weaArray 0 ds0 = Inr ds'
               \<and> (\<forall>j<length weaArray. ds' ! j = day_from_json (toObject (weaArray ! j)) (ds0 ! j))
               \<and> (\<forall>j\<ge>length weaArray. ds' ! j = ds0 ! j)
               \<and> parseWeatherJsonDataNew fromJson rawData w = updateUI (w\<lparr>days := ds'\<rparr>)))"
proof (intro conjI impI)
  assume "days_size < length weaArray"
  then show o: "fill_days weaArray 0 ds0 = Inl (DaysIndexOutOfBounds days_size)"
    by (simp add: fill_days_overflow)
  show "parseWeatherJsonDataNew fromJson rawData w = Inl (DaysIndexOutOfBounds days_size)"
    using o parse_object_data [where fromJson = fromJson and rawData = rawData and w = w, OF refl assms(2,1)] assms(4) by simp
next
  assume "length weaArray \<le> days_size"
  then have "0 + length weaArray \<le> days_size" by simp
  moreover have "length ds0 = days_size" using assms(3,4) by simp
  ultimately obtain ds' where f: "fill_days weaArray 0 ds0 = Inr ds'"
    and a: "\<forall>j. 0 \<le> j \<and> j < 0 + length weaArray
              \<longrightarrow> ds' ! j = day_from_json (toObject (weaArray ! (j - 0))) (ds0 ! j)"
    and b: "\<forall>j. j < 0 \<or> 0 + length weaArray \<le> j \<longrightarrow> ds' ! j = ds0 ! j"
    using fill_days_fits [of 0 weaArray ds0] by blast
  have "parseWeatherJsonDataNew fromJson rawData w = updateUI (w\<lparr>days := ds'\<rparr>)"
    using f parse_object_data [where fromJson = fromJson and rawData = rawData and w = w, OF refl assms(2,1)] assms(4) by simp
  with f a b show "\<exists>ds'. fill_days weaArray 0 ds0 = Inr ds'
      \<and> (\<forall>j<length weaArray. ds' ! j = day_from_json (toObject (weaArray ! j)) (ds0 ! j))
      \<and> (\<forall>j\<ge>length weaArray. ds' ! j = ds0 ! j)
      \<and> parseWeatherJsonDataNew fromJson rawData w = updateUI (w\<lparr>days := ds'\<rparr>)"
    by simp
qed

section \<open>Replies and submissions\<close>

text \<open>
  Claim C8. For a reply with a transport error or a status code other than 200, the
  handler shows the message box for a failed request and changes nothing else: \<open>days\<close>
  and the display are as before.
\<close>

theorem readHttpReply_failure:
  assumes "reply_error reply \<noteq> NoError \<or> httpStatusCode reply \<noteq> 200"
  shows "readHttpReply fromJson reply w =
           Inr (w\<lparr>messages := messages w @ [(str_error_title, str_network_failed)]\<rparr>)
       \<and> (\<exists>w'. readHttpReply fromJson reply w = Inr w' \<and> days w' = days w \<and> ui w' = ui w
              \<and> messages w' = messages w @ [(str_error_title, str_network_failed)])"
  using assms by (auto simp add: readHttpReply_def Let_def)

text \<open>
  Claim C7. For every window and text in the line edit: when \<open>getCityCodeFromName\<close>
  returns the empty string, the slot shows the message box for a wrong city name and
  issues no request, and the URL, \<open>days\<close>, the display and the icon table are unchanged
  (the resolver may have loaded its table); when it returns a code, the slot issues
  exactly one request, for the URL with \<open>&cityid=\<close> and the code appended, and shows
  no message.
\<close>

theorem submit_resolution_outcome:
  "(fst (getCityCodeFromName fromJson cityFile (lineEditCity (ui w)) (cityCodeUtils w)) = [] \<longrightarrow>
      requests (on_LineEditCity_clicked fromJson cityFile w) = requests w
    \<and> messages (on_LineEditCity_clicked fromJson cityFile w) =
        messages w @ [(str_error_title, str_wrong_city)]
    \<and> strUrl (on_LineEditCity_clicked fromJson cityFile w) = strUrl w
    \<and> days (on_LineEditCity_clicked fromJson cityFile w) = days w
    \<and> ui (on_LineEditCity_clicked fromJson cityFile w) = ui w
    \<and> mTypeMap (on_LineEditCity_clicked fromJson cityFile w) = mTypeMap w)
 \<and> (fst (getCityCodeFromName fromJson cityFile (lineEditCity (ui w)) (cityCodeUtils w)) \<noteq> [] \<longrightarrow>
      requests (on_LineEditCity_clicked fromJson cityFile w) =
        requests w @ [strUrl w @ lit ''&cityid='' @
          fst (getCityCodeFromName fromJson cityFile (lineEditCity (ui w)) (cityCodeUtils w))]
    \<and> length (requests (on_LineEditCity_clicked fromJson cityFile w)) = Suc (length (requests w))
    \<and> messages (on_LineEditCity_clicked fromJson cityFile w) = messages w)"
  by (simp add: on_LineEditCity_clicked_def Let_def split_def)

section \<open>Runs on concrete inputs\<close>

text \<open>Entries of the icon table of the constructor.\<close>

lemma icon_sunny: "map_of mTypeMap_init [0x6674] = Some (lit '':/type/Qing.png'')"
  by (simp add: mTypeMap_init_def lit_def)

lemma icon_cloudy: "map_of mTypeMap_init [0x591A, 0x4E91] = Some (lit '':/type/DuoYun.png'')"
  by (simp add: mTypeMap_init_def lit_def)

lemma icon_turning: "map_of mTypeMap_init [0x591A, 0x4E91, 0x8F6C, 0x6674] = None"
  "map_of mTypeMap_init [0x8F6C, 0x6674] = None"
  by (simp_all add: mTypeMap_init_def lit_def)

lemma icon_empty: "map_of mTypeMap_init [] = None"
  by (simp add: mTypeMap_init_def lit_def)

lemmas ex_defs = ex_fromJson_def ex_forecast_def ex_forecast_root_def ex_forecast_data_def
  ex_empty_data_def ex_no_data_def ex_eight_days_def ex_eight_root_def ex_citycode_def
  ex_day_obj_def ex_widget0_def ex_ok_def ex_not_found_def ex_typed_def
  ex_day0_def ex_ui0_def ex_day_def ex_days_def ex_shown_ui_def ex_shown_def ex_after_empty_def
  ex_geometry_def ex_hot_days_def Widget_new_def CityCodeUtils_new_def

lemmas run_simps = readHttpReply_def parseWeatherJsonDataNew_def updateUI_def updateUI_today_def
  updateUI_day_def day_from_json_def obj_value_def obj_contains_def val_at_def arr_at_def
  QMap_index_def indexOf_def right_def days_size_def airq_style_def Let_def
  ex_defs lit_def str_defs upt6 list_update_numeral replicate_numeral
  icon_sunny icon_cloudy icon_turning icon_empty QMap_insert_new map_of_append_case

lemma ex_forecast_run: "readHttpReply ex_fromJson (ex_ok ''forecast'') ex_widget0 = Inr ex_shown"
  by (simp add: run_simps del: map_of_append)

lemma ex_empty_run:
  "readHttpReply ex_fromJson (ex_ok ''empty data'') ex_shown = Inr ex_after_empty"
  by (simp add: run_simps del: map_of_append)

lemma ex_empty_first:
  "readHttpReply ex_fromJson (ex_ok ''empty data'') ex_widget0 = Inl (ListIndexOutOfRange 1)"
  by (simp add: run_simps del: map_of_append)

text \<open>
  Claim C4: a reply with status 200 whose body is valid JSON with an empty \<open>data\<close> array
  should leave the display unchanged, show no partial record and not crash. The run
  below shows what the code does. After the forecast for Beijing is on display, such a
  reply naming Shanghai stores the new city in \<open>days[0]\<close> and calls \<open>updateUI\<close>: the city
  label changes to Shanghai and the PM2.5 label is cleared, while the dates and all other
  texts still show the forecast for Beijing. As the first reply after the start, with
  every text of \<open>days\<close> empty, the same body stops the program at \<open>dayList.at(1)\<close>.
\<close>

theorem empty_data_refreshes_display:
  "readHttpReply ex_fromJson (ex_ok ''forecast'') ex_widget0 = Inr ex_shown
   \<and> readHttpReply ex_fromJson (ex_ok ''empty data'') ex_shown = Inr ex_after_empty
   \<and> labelCity (ui ex_shown) = str_beijing @ str_shi
   \<and> labelCity (ui ex_after_empty) = str_shanghai @ str_shi
   \<and> labelPM25Data (ui ex_shown) = lit ''35''
   \<and> labelPM25Data (ui ex_after_empty) = []
   \<and> mDateList (ui ex_after_empty) = mDateList (ui ex_shown)
   \<and> ui ex_after_empty \<noteq> ui ex_shown
   \<and> readHttpReply ex_fromJson (ex_ok ''empty data'') ex_widget0 = Inl (ListIndexOutOfRange 1)"
  by (simp add: ex_forecast_run ex_empty_run ex_empty_first)
    (simp add: ex_defs str_defs lit_def)

text \<open>
  Claim C5: for a condition text that contains U+8F6C the icon of the day strip should
  be chosen by the text after that character, and the text shown should be the full
  string. The run below shows what the code does for the second day of the forecast,
  whose text is cloudy, U+8F6C, sunny: the text shown is the full string, and the icon
  label gets the table entry of the full string, which does not exist, so it is empty,
  although the table has an icon for sunny. The local \<open>pixmap\<close> chosen after the test
  for U+8F6C is overwritten and never shown, and \<open>right(index)\<close>, which it uses, gives
  the last \<open>index\<close> code units (here U+8F6C and sunny), not the text after U+8F6C.
\<close>

theorem icon_from_full_text:
  "readHttpReply ex_fromJson (ex_ok ''forecast'') ex_widget0 = Inr ex_shown
   \<and> mWeathType (days ex_shown ! 1) = str_cloudy @ str_zhuan @ str_sunny
   \<and> mWeaTypeList (ui ex_shown) ! 1 = str_cloudy @ str_zhuan @ str_sunny
   \<and> mIconList (ui ex_shown) ! 1 = []
   \<and> map_of mTypeMap_init str_sunny = Some (lit '':/type/Qing.png'')
   \<and> map_of mTypeMap_init (str_cloudy @ str_zhuan @ str_sunny) = None
   \<and> right (str_cloudy @ str_zhuan @ str_sunny) (indexOf (str_cloudy @ str_zhuan @ str_sunny) str_zhuan)
       = str_zhuan @ str_sunny"
  by (simp add: ex_forecast_run)
    (simp add: ex_defs str_defs icon_sunny icon_turning indexOf_def right_def)

text \<open>
  Claim C6: every request URL should be the base query string followed by at most one
  \<open>cityid\<close> parameter, that of the latest successful resolution. The run below shows
  what the code does on two submissions that both resolve, Beijing and then Shanghai:
  \<open>strUrl += ...\<close> appends to the member, so the third request carries both codes.
\<close>

theorem cityid_accumulates:
  "requests (submits ex_fromJson ''citycode.json'' [str_beijing, str_shanghai] ex_widget0) =
     [base_url,
      base_url @ lit ''&cityid=101010100'',
      base_url @ lit ''&cityid=101010100&cityid=101020100'']"
  by (simp add: submit_def on_LineEditCity_clicked_def getCityCodeFromName_def InitCityMap_def
      QMap_insert_def val_at_def obj_value_def Let_def ex_defs str_defs lit_def)

section \<open>Witnesses and counterexamples\<close>

text \<open>Against claim C9 as stated: when the resource cannot be read (no bytes, hence the null
  document) two lookups run \<open>InitCityMap\<close> twice.\<close>

theorem load_repeats_when_table_stays_empty:
  "ex_fromJson [] = DocNull
   \<and> lookups ex_fromJson [] [str_beijing, str_beijing] CityCodeUtils_new =
       ([[], []], \<lparr>CityMap = [], initCalls = 2\<rparr>)
   \<and> \<not> initCalls (snd (lookups ex_fromJson [] [str_beijing, str_beijing] CityCodeUtils_new)) \<le> 1"
  by (simp add: getCityCodeFromName_def InitCityMap_def Let_def ex_fromJson_def
      CityCodeUtils_new_def str_defs)

theorem load_runs_while_table_empty_witness:
  "CityMap (CityCodeUtils_new\<lparr>initCalls := 5\<rparr>) = CityMap CityCodeUtils_new
   \<and> fst (getCityCodeFromName ex_fromJson ''citycode.json'' str_beijing
            (CityCodeUtils_new\<lparr>initCalls := 5\<rparr>)) = lit ''101010100''
   \<and> fst (getCityCodeFromName ex_fromJson ''citycode.json'' str_beijing CityCodeUtils_new) =
       lit ''101010100''
   \<and> initCalls (snd (lookups ex_fromJson ''citycode.json'' [str_beijing, str_shanghai, str_beijing]
        CityCodeUtils_new)) = 1"
proof -
  have h: "CityMap (CityCodeUtils_new\<lparr>initCalls := 5\<rparr>) = CityMap CityCodeUtils_new"
    by (simp add: CityCodeUtils_new_def)
  have r: "fst (getCityCodeFromName ex_fromJson ''citycode.json'' str_beijing CityCodeUtils_new) =
      lit ''101010100''"
    by (simp add: getCityCodeFromName_def InitCityMap_def QMap_insert_def val_at_def obj_value_def
        Let_def ex_defs str_defs lit_def)
  have t: "table_in_use ex_fromJson ''citycode.json'' CityCodeUtils_new \<noteq> []"
    by (simp add: table_in_use_def InitCityMap_def QMap_insert_def val_at_def obj_value_def
        Let_def ex_defs str_defs lit_def)
  have e: "CityMap CityCodeUtils_new = []"
    by (simp add: CityCodeUtils_new_def)
  have z: "initCalls CityCodeUtils_new = 0"
    by (simp add: CityCodeUtils_new_def)
  from load_runs_while_table_empty
    [of ex_fromJson "''citycode.json''" "[str_beijing, str_shanghai, str_beijing]"
      CityCodeUtils_new "CityCodeUtils_new\<lparr>initCalls := 5\<rparr>" str_beijing]
  show ?thesis using h r t e z by simp
qed

text \<open>Against claim C2 as stated: six equal temperatures of 2147483647 in a chart of
  height 140 do not give \<open>y = 70\<close>; the sum wraps around.\<close>

theorem trend_layout_overflow:
  "map (ex_toInt \<circ> mTempHigh) (take 6 ex_hot_days) = replicate 6 2147483647
   \<and> sint (widget0404_height ex_geometry) sdiv 2 = 70
   \<and> map (snd \<circ> point_int)
        (ellipse_centres (drawTempLineHigh ex_toInt ex_geometry (ex_widget0\<lparr>days := ex_hot_days\<rparr>)))
       = replicate 6 (- 2147483578)
   \<and> map (snd \<circ> point_int)
        (ellipse_centres (drawTempLineHigh ex_toInt ex_geometry (ex_widget0\<lparr>days := ex_hot_days\<rparr>)))
       \<noteq> replicate 6 (sint (widget0404_height ex_geometry) sdiv 2)"
  unfolding drawTempLineHigh_def
  by (simp only: ellipse_centres.simps append.simps ellipse_centres_draw_points)
    (simp add: temp_points_def temp_sum_def point_int_def sdiv32_def sdiv6_eq sdiv2_eq upt6
      replicate_numeral Let_def ex_defs ex_toInt_def lit_def)

theorem trend_layout_witness:
  "temps_in_range (chart_temps ex_toInt mTempHigh (days ex_shown))
   \<and> temps_in_range (chart_temps ex_toInt mTempLow (days ex_shown))
   \<and> \<bar>sint (widget0404_height ex_geometry)\<bar> \<le> 1000000000
   \<and> \<bar>sint (widget0405_height ex_geometry)\<bar> \<le> 1000000000
   \<and> map point_int (ellipse_centres (drawTempLineHigh ex_toInt ex_geometry ex_shown)) =
       [(45, 100), (135, 70), (225, 40), (315, 100), (405, 70), (495, 40)]
   \<and> map point_int (ellipse_centres (drawTempLineLow ex_toInt ex_geometry ex_shown)) =
       [(45, 70), (135, 70), (225, 70), (315, 70), (405, 70), (495, 70)]"
proof -
  have th: "chart_temps ex_toInt mTempHigh (days ex_shown) = [0, 10, 20, 0, 10, 20]"
    by (simp add: chart_temps_def upt6 ex_defs ex_toInt_def lit_def)
  have tl: "chart_temps ex_toInt mTempLow (days ex_shown) = [- 5, - 5, - 5, - 5, - 5, - 5]"
    by (simp add: chart_temps_def upt6 ex_defs ex_toInt_def lit_def)
  have a: "chart_anchors ex_geometry = [45, 135, 225, 315, 405, 495]"
    by (simp add: chart_anchors_def upt6 ex_defs sdiv32_def sdiv2_eq)
  have h1: "temps_in_range (chart_temps ex_toInt mTempHigh (days ex_shown))"
    by (simp add: th temps_in_range_def)
  have h2: "temps_in_range (chart_temps ex_toInt mTempLow (days ex_shown))"
    by (simp add: tl temps_in_range_def)
  have h3: "\<bar>sint (widget0404_height ex_geometry)\<bar> \<le> 1000000000"
    by (simp add: ex_geometry_def)
  have h4: "\<bar>sint (widget0405_height ex_geometry)\<bar> \<le> 1000000000"
    by (simp add: ex_geometry_def)
  have g: "sint (widget0404_height ex_geometry) = 140" "sint (widget0405_height ex_geometry) = 141"
    by (simp_all add: ex_geometry_def)
  from trend_layout [OF h1 h2 h3 h4] show ?thesis
    using h1 h2 h3 h4 by (simp add: th tl a g layout_spec_def upt6 sdiv6_eq sdiv2_eq)
qed

text \<open>Against claim C3 as stated: an object payload without \<open>data\<close> changes
  \<open>days[0].mCity\<close> from Beijing to Shanghai and clears \<open>days[0].mPm25\<close>.\<close>

theorem parse_refused_not_atomic:
  "payload_refused (ex_fromJson ''no data'')
   \<and> parseWeatherJsonDataNew ex_fromJson ''no data'' ex_shown =
       Inr (ex_shown\<lparr>days := ex_days[0 := (ex_days ! 0)\<lparr>mCity := str_shanghai, mPm25 := []\<rparr>]\<rparr>)
   \<and> mCity (days ex_shown ! 0) = str_beijing
   \<and> parseWeatherJsonDataNew ex_fromJson ''no data'' ex_shown \<noteq> Inr ex_shown"
  by (simp add: payload_refused_def parseWeatherJsonDataNew_def obj_contains_def obj_value_def
      val_at_def Let_def ex_defs str_defs lit_def)

theorem parse_refused_frame_witness:
  "payload_refused (ex_fromJson ''no data'')
   \<and> payload_refused (ex_fromJson ''not json'')
   \<and> parseWeatherJsonDataNew ex_fromJson ''not json'' ex_shown = Inr ex_shown
   \<and> (\<exists>w'. parseWeatherJsonDataNew ex_fromJson ''no data'' ex_shown = Inr w'
          \<and> ui w' = ui ex_shown
          \<and> days w' ! 1 = days ex_shown ! 1
          \<and> days w' ! 6 = days ex_shown ! 6
          \<and> (days w' ! 0)\<lparr>mCity := mCity (days ex_shown ! 0), mPm25 := mPm25 (days ex_shown ! 0)\<rparr>
              = days ex_shown ! 0)"
proof -
  have h1: "payload_refused (ex_fromJson ''no data'')"
    by (simp add: payload_refused_def obj_contains_def ex_fromJson_def ex_no_data_def lit_def)
  have h2: "payload_refused (ex_fromJson ''not json'')"
    by (simp add: payload_refused_def ex_fromJson_def)
  have n: "\<forall>jsonRoot. ex_fromJson ''not json'' \<noteq> DocObject jsonRoot"
    by (simp add: ex_fromJson_def)
  from parse_refused_frame [of ex_fromJson "''not json''" ex_shown, OF h2] n
  have r: "parseWeatherJsonDataNew ex_fromJson ''not json'' ex_shown = Inr ex_shown"
    by auto
  from parse_refused_frame [of ex_fromJson "''no data''" ex_shown, OF h1]
  obtain w' where "parseWeatherJsonDataNew ex_fromJson ''no data'' ex_shown = Inr w'"
    and "ui w' = ui ex_shown"
    and i: "\<forall>i. 0 < i \<longrightarrow> days w' ! i = days ex_shown ! i"
    and "(days w' ! 0)\<lparr>mCity := mCity (days ex_shown ! 0), mPm25 := mPm25 (days ex_shown ! 0)\<rparr>
           = days ex_shown ! 0"
    by blast
  moreover from i have "days w' ! 1 = days ex_shown ! 1" "days w' ! 6 = days ex_shown ! 6"
    by simp_all
  ultimately show ?thesis using h1 h2 r by blast
qed

theorem days_written_without_bound_witness:
  "ex_fromJson ''eight days'' = DocObject ex_eight_root
   \<and> obj_value ex_eight_root (lit ''data'') = Array (replicate 8 (Object []))
   \<and> length (days ex_widget0) = days_size
   \<and> days_size < length (replicate 8 (Object []) :: QJsonValue list)
   \<and> parseWeatherJsonDataNew ex_fromJson ''eight days'' ex_widget0 = Inl (DaysIndexOutOfBounds 7)
   \<and> ex_fromJson ''forecast'' = DocObject ex_forecast_root
   \<and> obj_value ex_forecast_root (lit ''data'') = Array ex_forecast_data
   \<and> length ex_forecast_data \<le> days_size
   \<and> (\<exists>ds'. mDate (ds' ! 1) = lit ''2025-03-02''
          \<and> parseWeatherJsonDataNew ex_fromJson ''forecast'' ex_widget0 =
              updateUI (ex_widget0\<lparr>days := ds'\<rparr>))"
proof -
  have a1: "ex_fromJson ''eight days'' = DocObject ex_eight_root"
    by (simp add: ex_fromJson_def ex_eight_days_def)
  have a2: "obj_value ex_eight_root (lit ''data'') = Array (replicate 8 (Object []))"
    by (simp add: obj_value_def ex_eight_root_def)
  have a3: "length (days ex_widget0) = days_size"
    by (simp add: ex_widget0_def Widget_new_def days_size_def)
  have a4: "days_size < length (replicate 8 (Object []) :: QJsonValue list)"
    by (simp add: days_size_def)
  have b1: "ex_fromJson ''forecast'' = DocObject ex_forecast_root"
    by (simp add: ex_fromJson_def ex_forecast_def)
  have b2: "obj_value ex_forecast_root (lit ''data'') = Array ex_forecast_data"
    by (simp add: obj_value_def ex_forecast_root_def lit_def)
  have b4: "length ex_forecast_data \<le> days_size"
    by (simp add: days_size_def ex_forecast_data_def)
  have d: "mDate (day_from_json (toObject (ex_forecast_data ! 1)) x) = lit ''2025-03-02''" for x
    by (simp add: day_from_json_def obj_value_def ex_forecast_data_def ex_day_obj_def lit_def)
  from days_written_without_bound
    [where fromJson = ex_fromJson and rawData = "''eight days''", OF a1 a2 a3 refl] a4
  have e: "parseWeatherJsonDataNew ex_fromJson ''eight days'' ex_widget0 =
      Inl (DaysIndexOutOfBounds 7)"
    by (simp add: days_size_def)
  from days_written_without_bound
    [where fromJson = ex_fromJson and rawData = "''forecast''", OF b1 b2 a3 refl] b4
  obtain ds' where
    p: "\<forall>j<length ex_forecast_data. \<exists>x. ds' ! j = day_from_json (toObject (ex_forecast_data ! j)) x"
    and q: "parseWeatherJsonDataNew ex_fromJson ''forecast'' ex_widget0 =
      updateUI (ex_widget0\<lparr>days := ds'\<rparr>)"
    by blast
  have "1 < length ex_forecast_data" by (simp add: ex_forecast_data_def)
  with p obtain x where "ds' ! 1 = day_from_json (toObject (ex_forecast_data ! 1)) x" by blast
  then have "mDate (ds' ! 1) = lit ''2025-03-02''" by (simp only: d)
  with q have "\<exists>ds'. mDate (ds' ! 1) = lit ''2025-03-02''
          \<and> parseWeatherJsonDataNew ex_fromJson ''forecast'' ex_widget0 =
              updateUI (ex_widget0\<lparr>days := ds'\<rparr>)"
    by blast
  with a1 a2 a3 a4 e b1 b2 b4 show ?thesis by blast
qed

theorem readHttpReply_failure_witness:
  "httpStatusCode ex_not_found = 404
   \<and> readHttpReply ex_fromJson ex_not_found ex_shown =
       Inr (ex_shown\<lparr>messages := [(str_error_title, str_network_failed)]\<rparr>)
   \<and> days (ex_shown\<lparr>messages := [(str_error_title, str_network_failed)]\<rparr>) = days ex_shown
   \<and> ui (ex_shown\<lparr>messages := [(str_error_title, str_network_failed)]\<rparr>) = ui ex_shown"
proof -
  have c: "httpStatusCode ex_not_found = 404"
    by (simp add: ex_not_found_def)
  then have h: "reply_error ex_not_found \<noteq> NoError \<or> httpStatusCode ex_not_found \<noteq> 200"
    by simp
  have m: "messages ex_shown = []"
    by (simp add: ex_shown_def ex_widget0_def Widget_new_def)
  from readHttpReply_failure [OF h, of ex_fromJson ex_shown] show ?thesis
    using c m by simp
qed

theorem submit_resolution_outcome_witness:
  "fst (getCityCodeFromName ex_fromJson ''citycode.json'' (lineEditCity (ui (ex_typed (lit ''x''))))
         (cityCodeUtils (ex_typed (lit ''x'')))) = []
   \<and> requests (on_LineEditCity_clicked ex_fromJson ''citycode.json'' (ex_typed (lit ''x''))) =
       [base_url]
   \<and> messages (on_LineEditCity_clicked ex_fromJson ''citycode.json'' (ex_typed (lit ''x''))) =
       [(str_error_title, str_wrong_city)]
   \<and> fst (getCityCodeFromName ex_fromJson ''citycode.json'' (lineEditCity (ui (ex_typed str_beijing)))
         (cityCodeUtils (ex_typed str_beijing))) = lit ''101010100''
   \<and> requests (on_LineEditCity_clicked ex_fromJson ''citycode.json'' (ex_typed str_beijing)) =
       [base_url, base_url @ lit ''&cityid=101010100'']
   \<and> messages (on_LineEditCity_clicked ex_fromJson ''citycode.json'' (ex_typed str_beijing)) = []"
proof -
  have x: "fst (getCityCodeFromName ex_fromJson ''citycode.json''
      (lineEditCity (ui (ex_typed (lit ''x'')))) (cityCodeUtils (ex_typed (lit ''x'')))) = []"
    by (simp add: getCityCodeFromName_def InitCityMap_def QMap_insert_def val_at_def obj_value_def
        Let_def ex_defs str_defs lit_def)
  have b: "fst (getCityCodeFromName ex_fromJson ''citycode.json''
      (lineEditCity (ui (ex_typed str_beijing))) (cityCodeUtils (ex_typed str_beijing))) =
      lit ''101010100''"
    by (simp add: getCityCodeFromName_def InitCityMap_def QMap_insert_def val_at_def obj_value_def
        Let_def ex_defs str_defs lit_def)
  have s: "requests (ex_typed q) = [base_url]" "messages (ex_typed q) = []"
    "strUrl (ex_typed q) = base_url" for q
    by (simp_all add: ex_typed_def ex_widget0_def Widget_new_def)
  from submit_resolution_outcome [of ex_fromJson "''citycode.json''" "ex_typed (lit ''x'')"]
    submit_resolution_outcome [of ex_fromJson "''citycode.json''" "ex_typed str_beijing"]
  show ?thesis using x b by (simp add: s lit_def)
qed

end
